theory Spec2Isabelle
  imports Complex_Main
begin

section \<open>JavaScript values\<close>

text \<open>
  The grid is written in JavaScript. Its numbers (pixel offsets, heights, widths) are
  modelled as mathematical reals: the model has no NaN, no infinities and no rounding
  error. Row indices are the results of \<open>Math.floor\<close> and \<open>Math.ceil\<close> and are
  modelled as integers. Every theorem below that divides by a row height assumes the
  height positive, so HOL's \<open>x / 0 = 0\<close> is never what a theorem is about.
\<close>

definition js_or :: "real \<Rightarrow> real \<Rightarrow> real" where
  \<comment> \<open>\<^verbatim>\<open>a || b\<close> on numbers: \<open>a\<close> when it is truthy (not zero), else \<open>b\<close>.\<close>
  "js_or a b = (if a \<noteq> 0 then a else b)"

definition Math_round :: "real \<Rightarrow> real" where
  \<comment> \<open>\<^verbatim>\<open>Math.round\<close>: the nearest integer, halves towards plus infinity.\<close>
  "Math_round x = of_int \<lfloor>x + 1 / 2\<rfloor>"

definition slice :: "'a list \<Rightarrow> int \<Rightarrow> int \<Rightarrow> 'a list" where
  \<comment> \<open>\<^verbatim>\<open>Array.prototype.slice(start, end)\<close>: a negative index counts from the end,
      both are clamped into the array, and an empty range gives the empty array.\<close>
  "slice xs a b =
     (let len = int (length xs);
          k = (if a < 0 then max (len + a) 0 else min a len);
          final = (if b < 0 then max (len + b) 0 else min b len)
      in take (nat (final - k)) (drop (nat k) xs))"

definition lodash_clamp :: "real \<Rightarrow> real \<Rightarrow> real \<Rightarrow> real" where
  \<comment> \<open>lodash's \<^verbatim>\<open>_.clamp(number, lower, upper)\<close>: first cut at \<open>upper\<close>, then raise to \<open>lower\<close>.\<close>
  "lodash_clamp number lower upper =
     (let n = (if number \<le> upper then number else upper)
      in if n \<ge> lower then n else lower)"

record element =
  scrollTop :: real
  scrollLeft :: real
  clientHeight :: real
  clientWidth :: real
  scrollWidth :: real

record dimensions =
  width :: real
  height :: real

section \<open>DataGridBody: row metrics and the viewport window\<close>

record 'row body_state =
  visibleRows :: "'row list"
  startIndex :: int
  measuredRowHeight :: real
  body_dimensions :: dimensions
  scrollTicking :: bool

record window_log =
  log_start :: int
  log_end :: int
  log_visibleCount :: int
  log_overscanRowCount :: int
  log_rowHeight :: real

definition initial_body_state :: "'row body_state" where
  \<comment> \<open>the \<^verbatim>\<open>useState\<close> and \<^verbatim>\<open>useRef\<close> initial values of DataGridBody\<close>
  "initial_body_state =
     \<lparr>visibleRows = [], startIndex = 0, measuredRowHeight = 35,
      body_dimensions = \<lparr>width = 0, height = 0\<rparr>, scrollTicking = False\<rparr>"

text \<open>
  \<open>calculateVisibleRows\<close> and \<open>measureRowHeight\<close> are created anew by every render
  whose \<open>data\<close>, \<open>measuredRowHeight\<close> or \<open>dimensions.height\<close> changed, and each
  closes over the values of its render. Who calls decides which render's function runs:
  the effect that measures on mount and on new data, and the scroll handler that effect
  installs, call the functions of the current render; the callbacks of the
  ResizeObserver and of the MutationObserver are created by effects with an empty
  dependency list and call the functions of the first render for ever. The values a
  function closes over are therefore an argument of the model; the state it writes to,
  and the container behind \<open>containerRef\<close>, are the current ones.
\<close>

record 'row body_closure =
  cl_data :: "'row list"
  cl_measuredRowHeight :: real
  cl_dimensions :: dimensions

definition currentRender :: "'row list \<Rightarrow> 'row body_state \<Rightarrow> 'row body_closure" where
  \<comment> \<open>the values of the render whose state is \<open>s\<close> and whose property is \<open>d\<close>\<close>
  "currentRender d s =
     \<lparr>cl_data = d, cl_measuredRowHeight = measuredRowHeight s,
      cl_dimensions = body_dimensions s\<rparr>"

definition firstRender :: "'row list \<Rightarrow> 'row body_closure" where
  \<comment> \<open>the values of the first render, with property \<open>d0\<close>\<close>
  "firstRender d0 =
     \<lparr>cl_data = d0, cl_measuredRowHeight = 35, cl_dimensions = \<lparr>width = 0, height = 0\<rparr>\<rparr>"

definition calculateVisibleRows ::
  "element option \<Rightarrow> 'row body_closure \<Rightarrow> 'row body_state
     \<Rightarrow> 'row body_state \<times> window_log option" where
  \<comment> \<open>\<^verbatim>\<open>containerRef.current\<close> is the first argument; the second component of the
      result is the object the function writes to the console.\<close>
  "calculateVisibleRows containerRef cl s =
     (case containerRef of
        None \<Rightarrow> (s, None)
      | Some container \<Rightarrow>
          let scrollTop' = scrollTop container;
              clientHeight' = js_or (clientHeight container) (height (cl_dimensions cl));
              visibleRowCount = \<lceil>clientHeight' / cl_measuredRowHeight cl\<rceil>;
              overscanRowCount = \<lceil>of_int visibleRowCount * (0.5 :: real)\<rceil>;
              start = max 0 (\<lfloor>scrollTop' / cl_measuredRowHeight cl\<rfloor> - overscanRowCount);
              end_index = min (int (length (cl_data cl)) - 1)
                    (\<lfloor>scrollTop' / cl_measuredRowHeight cl\<rfloor> + visibleRowCount
                       + overscanRowCount)
          in (s\<lparr>startIndex := start,
                visibleRows := slice (cl_data cl) start (end_index + 1),
                scrollTicking := False\<rparr>,
              Some \<lparr>log_start = start, log_end = end_index,
                    log_visibleCount = end_index - start + 1,
                    log_overscanRowCount = overscanRowCount,
                    log_rowHeight = cl_measuredRowHeight cl\<rparr>))"

definition virtualRowsTop :: "'row body_state \<Rightarrow> real" where
  \<comment> \<open>the \<^verbatim>\<open>top\<close> style of the rendered rows container\<close>
  "virtualRowsTop s = of_int (startIndex s) * measuredRowHeight s"

definition totalHeightSpacer :: "'row list \<Rightarrow> 'row body_state \<Rightarrow> real" where
  "totalHeightSpacer d s = of_nat (length d) * measuredRowHeight s"

definition measureRowHeight :: "real \<Rightarrow> real option \<Rightarrow> 'row body_state \<Rightarrow> 'row body_state" where
  \<comment> \<open>The first argument is the \<open>measuredRowHeight\<close> the function closes over. The
      second is the height of the bounding rectangle of the first rendered row, \<open>None\<close>
      when there is no container or no rendered row (the two early returns).\<close>
  "measureRowHeight measuredRowHeight' rowElementHeight s =
     (case rowElementHeight of
        None \<Rightarrow> s
      | Some h \<Rightarrow>
          let computedHeight = Math_round h
          in if computedHeight > 0 \<and> \<bar>computedHeight - measuredRowHeight'\<bar> > 1
             then s\<lparr>measuredRowHeight := computedHeight\<rparr>
             else s)"

datatype measurement = InEffect "real option" | InObserver "real option"

fun measurementBy :: "measurement \<Rightarrow> 'row body_state \<Rightarrow> 'row body_state" where
  \<comment> \<open>a measurement by the effect of the current render, or by an observer's callback,
      which runs the function of the first render, whose estimate is the initial 35\<close>
  "measurementBy (InEffect sample) s = measureRowHeight (measuredRowHeight s) sample s"
| "measurementBy (InObserver sample) s = measureRowHeight 35 sample s"

section \<open>VirtualizedRows: the window rendered by DataGrid\<close>

text \<open>
  \<open>ROW_HEIGHT\<close> is imported from the constants module, which is not among the sources;
  it is a parameter of every definition that reads it.
\<close>

record visible_range =
  vr_startIndex :: int
  vr_endIndex :: int

definition visibleRange :: "real \<Rightarrow> 'row list \<Rightarrow> int \<Rightarrow> real \<Rightarrow> visible_range" where
  \<comment> \<open>the effect of VirtualizedRows that follows \<open>scrollTop\<close>; \<open>endIndex\<close> is exclusive\<close>
  "visibleRange ROW_HEIGHT data visibleRowsCount scrollTop' =
     (let startIndex' = max 0 \<lfloor>scrollTop' / ROW_HEIGHT\<rfloor>;
          endIndex' = min (int (length data)) (startIndex' + visibleRowsCount + 2)
      in \<lparr>vr_startIndex = startIndex', vr_endIndex = endIndex'\<rparr>)"

definition visibleData :: "'row list \<Rightarrow> visible_range \<Rightarrow> 'row list" where
  "visibleData data r = slice data (vr_startIndex r) (vr_endIndex r)"

definition offsetY :: "real \<Rightarrow> visible_range \<Rightarrow> real" where
  "offsetY ROW_HEIGHT r = of_int (vr_startIndex r) * ROW_HEIGHT"

section \<open>DataGrid: the orchestrator\<close>

record header =
  col_id :: string
  col_name :: string
  col_width :: real
  minWidth :: real
  maxWidth :: real
  resizable :: bool
  sortable :: bool

record sort_config =
  key :: "string option"
  direction :: string

record scroll_position =
  pos_top :: real
  pos_left :: real

text \<open>
  The state of the component: its \<^verbatim>\<open>useState\<close> cells, the \<open>data\<close> property of the
  current render, and the two DOM elements behind \<open>bodyRef\<close> and \<open>headerRef\<close>
  (\<open>None\<close> while the element is not mounted).
\<close>

record 'row grid_state =
  data :: "'row list"
  headers :: "header list"
  sortConfig :: sort_config
  grid_dimensions :: dimensions
  scrollPosition :: scroll_position
  bodyRef :: "element option"
  headerRef :: "element option"

definition initial_grid_state :: "'row list \<Rightarrow> header list \<Rightarrow> 'row grid_state" where
  "initial_grid_state d initialHeaders =
     \<lparr>data = d, headers = initialHeaders,
      sortConfig = \<lparr>key = None, direction = ''asc''\<rparr>,
      grid_dimensions = \<lparr>width = 0, height = 0\<rparr>,
      scrollPosition = \<lparr>pos_top = 0, pos_left = 0\<rparr>,
      bodyRef = None, headerRef = None\<rparr>"

definition visibleRowsCount :: "real \<Rightarrow> 'row grid_state \<Rightarrow> int" where
  "visibleRowsCount ROW_HEIGHT s =
     max 10 \<lceil>js_or (height (grid_dimensions s)) 300 / ROW_HEIGHT\<rceil>"

subsection \<open>Sorting\<close>

text \<open>
  \<^verbatim>\<open>_.orderBy\<close> is lodash's; it is a parameter \<open>orderBy\<close> of the model, a function
  from the array, the list of keys and the list of directions to the array it returns.
\<close>

type_synonym 'row order_by = "'row list \<Rightarrow> string list \<Rightarrow> string list \<Rightarrow> 'row list"

definition falsy_key :: "string option \<Rightarrow> bool" where
  \<comment> \<open>\<^verbatim>\<open>!sortConfig.key\<close>: \<open>null\<close> and the empty string are falsy\<close>
  "falsy_key k = (case k of None \<Rightarrow> True | Some str \<Rightarrow> str = [])"

definition sortedData :: "'row order_by \<Rightarrow> 'row list \<Rightarrow> sort_config \<Rightarrow> 'row list" where
  "sortedData orderBy d cfg =
     (case key cfg of
        None \<Rightarrow> d
      | Some k \<Rightarrow> if k = [] then d else orderBy d [k] [direction cfg])"

text \<open>
  The same computation with the arrays held in a store, one array per address, to say
  what it does to the array it is given: without a key it returns the address it was
  given, with a key it returns the address of the array \<open>orderBy\<close> allocates.
\<close>

type_synonym 'row store = "'row list list"

definition alloc :: "'row list \<Rightarrow> 'row store \<Rightarrow> nat \<times> 'row store" where
  "alloc xs st = (length st, st @ [xs])"

definition sortedData_store ::
  "'row order_by \<Rightarrow> nat \<Rightarrow> sort_config \<Rightarrow> 'row store \<Rightarrow> nat \<times> 'row store" where
  "sortedData_store orderBy dataRef cfg st =
     (case key cfg of
        None \<Rightarrow> (dataRef, st)
      | Some k \<Rightarrow>
          if k = [] then (dataRef, st)
          else alloc (orderBy (st ! dataRef) [k] [direction cfg]) st)"

definition handleSort :: "string \<Rightarrow> sort_config \<Rightarrow> sort_config" where
  \<comment> \<open>the updater that \<open>handleSort key\<close> passes to \<open>setSortConfig\<close>\<close>
  "handleSort k prevConfig =
     (if key prevConfig = Some k \<and> direction prevConfig = ''asc''
        then \<lparr>key = Some k, direction = ''desc''\<rparr>
      else if key prevConfig = Some k \<and> direction prevConfig = ''desc''
        then \<lparr>key = None, direction = ''asc''\<rparr>
      else \<lparr>key = Some k, direction = ''asc''\<rparr>)"

definition headerClick :: "header \<Rightarrow> 'row grid_state \<Rightarrow> 'row grid_state" where
  \<comment> \<open>\<^verbatim>\<open>onClick={() => header.sortable && handleSort(header.id)}\<close>\<close>
  "headerClick hdr s =
     (if sortable hdr then s\<lparr>sortConfig := handleSort (col_id hdr) (sortConfig s)\<rparr> else s)"

definition totalColumnsWidth :: "'row grid_state \<Rightarrow> real" where
  "totalColumnsWidth s = sum_list (map col_width (headers s))"

definition renderedRange :: "'row order_by \<Rightarrow> real \<Rightarrow> 'row grid_state \<Rightarrow> visible_range" where
  \<comment> \<open>the range VirtualizedRows computes from the properties DataGrid hands it\<close>
  "renderedRange orderBy ROW_HEIGHT s =
     visibleRange ROW_HEIGHT (sortedData orderBy (data s) (sortConfig s))
       (visibleRowsCount ROW_HEIGHT s) (pos_top (scrollPosition s))"

subsection \<open>Scroll synchronisation\<close>

datatype scroll_target = BodyTarget | HeaderTarget | OtherTarget

text \<open>
  \<open>handleScroll\<close> receives the event's target. \<^verbatim>\<open>e.target === bodyRef.current\<close> holds
  when the target is the body element and that element is mounted. The second component
  of the result lists the regions whose \<open>scrollLeft\<close> the handler assigned.
\<close>

definition handleScroll ::
  "scroll_target \<Rightarrow> 'row grid_state \<Rightarrow> 'row grid_state \<times> scroll_target list" where
  "handleScroll target s =
     (case target of
        BodyTarget \<Rightarrow>
          (case bodyRef s of
             None \<Rightarrow> (s, [])
           | Some body \<Rightarrow>
               let scrollTop' = scrollTop body;
                   scrollLeft' = scrollLeft body;
                   prev = scrollPosition s;
                   s1 = s\<lparr>scrollPosition :=
                          (if pos_top prev = scrollTop' \<and> pos_left prev = scrollLeft' then prev
                           else \<lparr>pos_top = scrollTop', pos_left = scrollLeft'\<rparr>)\<rparr>
               in (case headerRef s1 of
                     None \<Rightarrow> (s1, [])
                   | Some hdr \<Rightarrow>
                       if scrollLeft hdr \<noteq> scrollLeft'
                       then (s1\<lparr>headerRef := Some (hdr\<lparr>scrollLeft := scrollLeft'\<rparr>)\<rparr>,
                             [HeaderTarget])
                       else (s1, [])))
      | HeaderTarget \<Rightarrow>
          (case headerRef s of
             None \<Rightarrow> (s, [])
           | Some hdr \<Rightarrow>
               let scrollLeft' = scrollLeft hdr;
                   prev = scrollPosition s;
                   s1 = s\<lparr>scrollPosition :=
                          (if pos_left prev = scrollLeft' then prev
                           else prev\<lparr>pos_left := scrollLeft'\<rparr>)\<rparr>
               in (case bodyRef s1 of
                     None \<Rightarrow> (s1, [])
                   | Some body \<Rightarrow>
                       if scrollLeft body \<noteq> scrollLeft'
                       then (s1\<lparr>bodyRef := Some (body\<lparr>scrollLeft := scrollLeft'\<rparr>)\<rparr>,
                             [BodyTarget])
                       else (s1, [])))
      | OtherTarget \<Rightarrow> (s, []))"

text \<open>
  The host delivers a scroll notification for a region whose offset was assigned. The
  loop below delivers the pending notifications in order, each through \<open>handleScroll\<close>,
  and appends the notifications the handler's own assignments cause. The first argument
  bounds the number of handler runs; \<open>None\<close> means the bound was reached with
  notifications still pending.
\<close>

fun dispatchScroll ::
  "nat \<Rightarrow> scroll_target list \<Rightarrow> 'row grid_state \<Rightarrow> 'row grid_state option" where
  "dispatchScroll n [] s = Some s"
| "dispatchScroll 0 (t # pending) s = None"
| "dispatchScroll (Suc n) (t # pending) s =
     (case handleScroll t s of (s', written) \<Rightarrow> dispatchScroll n (pending @ written) s')"

definition regionOffset :: "scroll_target \<Rightarrow> 'row grid_state \<Rightarrow> real option" where
  \<comment> \<open>the horizontal offset a region shows\<close>
  "regionOffset t s =
     (case t of
        BodyTarget \<Rightarrow> map_option scrollLeft (bodyRef s)
      | HeaderTarget \<Rightarrow> map_option scrollLeft (headerRef s)
      | OtherTarget \<Rightarrow> None)"

definition otherRegion :: "scroll_target \<Rightarrow> scroll_target" where
  "otherRegion t =
     (case t of BodyTarget \<Rightarrow> HeaderTarget | HeaderTarget \<Rightarrow> BodyTarget
      | OtherTarget \<Rightarrow> OtherTarget)"

subsection \<open>Replacing the dataset\<close>

text \<open>
  A render of DataGrid returns the placeholder when \<open>data\<close> or \<open>headers\<close> is empty,
  and the two regions otherwise. When the render is committed, the regions that are no
  longer rendered are removed and their refs become \<open>null\<close>; regions that were
  rendered before stay the elements they were; regions rendered for the first time are
  new elements of the host, which start at scroll offsets 0. The host's new elements are
  the arguments \<open>freshBody\<close> and \<open>freshHeader\<close>.
\<close>

definition commitRender ::
  "element \<Rightarrow> element \<Rightarrow> 'row list \<Rightarrow> 'row grid_state \<Rightarrow> 'row grid_state" where
  "commitRender freshBody freshHeader newData s =
     (if newData = [] \<or> headers s = []
      then s\<lparr>data := newData, bodyRef := None, headerRef := None\<rparr>
      else s\<lparr>data := newData,
             bodyRef := Some (case bodyRef s of
                                Some body \<Rightarrow> body
                              | None \<Rightarrow> freshBody\<lparr>scrollTop := 0, scrollLeft := 0\<rparr>),
             headerRef := Some (case headerRef s of
                                  Some hdr \<Rightarrow> hdr
                                | None \<Rightarrow> freshHeader\<lparr>scrollTop := 0, scrollLeft := 0\<rparr>)\<rparr>)"

definition dataChangeEffect :: "'row grid_state \<Rightarrow> 'row grid_state" where
  \<comment> \<open>the body of the effect whose dependency list is \<^verbatim>\<open>[data.length]\<close>\<close>
  "dataChangeEffect s =
     (case bodyRef s of
        None \<Rightarrow> s
      | Some body \<Rightarrow>
          s\<lparr>bodyRef := Some (body\<lparr>scrollTop := 0\<rparr>),
            scrollPosition := \<lparr>pos_top = 0, pos_left = pos_left (scrollPosition s)\<rparr>\<rparr>)"

definition replaceData ::
  "element \<Rightarrow> element \<Rightarrow> 'row list \<Rightarrow> 'row grid_state \<Rightarrow> 'row grid_state" where
  \<comment> \<open>A mounted DataGrid is rendered with a new \<open>data\<close> property. React runs an effect
      after the commit of a render in which one of its dependencies changed: here, when
      the length of \<open>data\<close> changed.\<close>
  "replaceData freshBody freshHeader newData s =
     (let s' = commitRender freshBody freshHeader newData s
      in if length newData \<noteq> length (data s) then dataChangeEffect s' else s')"

definition mountDataGrid ::
  "element \<Rightarrow> element \<Rightarrow> 'row list \<Rightarrow> header list \<Rightarrow> 'row grid_state" where
  \<comment> \<open>the first render of a DataGrid, its commit, and the effect, which runs on mount\<close>
  "mountDataGrid freshBody freshHeader d initialHeaders =
     dataChangeEffect (commitRender freshBody freshHeader d (initial_grid_state d initialHeaders))"

subsection \<open>Resizing a column\<close>

definition handleColumnResize :: "string \<Rightarrow> real \<Rightarrow> 'row grid_state \<Rightarrow> 'row grid_state" where
  "handleColumnResize columnId newWidth s =
     s\<lparr>headers :=
         map (\<lambda>hdr. if col_id hdr = columnId then hdr\<lparr>col_width := newWidth\<rparr> else hdr)
           (headers s)\<rparr>"

text \<open>
  What the \<^verbatim>\<open>onMouseDown\<close> handler of a resize handle captures for the mouse-move
  handler it installs. The handle is rendered for a resizable column only.
\<close>

record drag =
  drag_column :: string
  startX :: real
  startWidth :: real
  containerRight :: real

definition resizeMouseDown :: "header \<Rightarrow> real \<Rightarrow> real \<Rightarrow> drag option" where
  "resizeMouseDown hdr clientX containerRectRight =
     (if resizable hdr
      then Some \<lparr>drag_column = col_id hdr, startX = clientX, startWidth = col_width hdr,
                  containerRight = containerRectRight\<rparr>
      else None)"

definition handleMouseMove :: "drag \<Rightarrow> real \<Rightarrow> 'row grid_state \<Rightarrow> 'row grid_state" where
  "handleMouseMove d clientX s =
     (let diff = clientX - startX d;
          newWidth = lodash_clamp (startWidth d + diff) 50 500;
          s1 = handleColumnResize (drag_column d) newWidth s
      in (case headerRef s1 of
            None \<Rightarrow> s1
          | Some hdr \<Rightarrow>
              if clientX > containerRight d - 20
                 \<and> scrollLeft hdr < scrollWidth hdr - clientWidth hdr
              then s1\<lparr>headerRef := Some (hdr\<lparr>scrollLeft := scrollLeft hdr + 10\<rparr>)\<rparr>
              else s1))"

definition resizeColumn :: "header \<Rightarrow> real \<Rightarrow> real \<Rightarrow> real \<Rightarrow> 'row grid_state \<Rightarrow> 'row grid_state" where
  \<comment> \<open>a press on the handle of a column at \<open>downX\<close> followed by one move to \<open>moveX\<close>\<close>
  "resizeColumn hdr downX containerRectRight moveX s =
     (case resizeMouseDown hdr downX containerRectRight of
        None \<Rightarrow> s
      | Some d \<Rightarrow> handleMouseMove d moveX s)"

section \<open>App and CSVUploader: loading a dataset\<close>

text \<open>
  App holds the dataset and the headers and renders DataGrid only while it is not
  loading and the dataset is not empty. \<open>grid\<close> is the state of the DataGrid it
  renders, \<open>None\<close> while it renders none.
\<close>

record 'row app_state =
  app_data :: "'row list"
  app_headers :: "header list"
  isLoading :: bool
  grid :: "'row grid_state option"

definition loader_column :: "string \<Rightarrow> header" where
  \<comment> \<open>a column as the CSV loader creates it for a field\<close>
  "loader_column field =
     \<lparr>col_id = field, col_name = field, col_width = 150, minWidth = 50, maxWidth = 500,
      resizable = True, sortable = True\<rparr>"

definition handleCSVData :: "'row list \<Rightarrow> header list \<Rightarrow> 'row app_state \<Rightarrow> 'row app_state" where
  "handleCSVData csvData csvHeaders a = a\<lparr>app_data := csvData, app_headers := csvHeaders\<rparr>"

definition renderApp :: "element \<Rightarrow> element \<Rightarrow> 'row app_state \<Rightarrow> 'row app_state" where
  \<comment> \<open>a render of App and its commit: a DataGrid that is no longer rendered is unmounted
      and its state is lost; one rendered anew is mounted; one that stays is rendered
      with the current dataset\<close>
  "renderApp freshBody freshHeader a =
     (if isLoading a then a\<lparr>grid := None\<rparr>
      else if app_data a \<noteq> []
      then a\<lparr>grid := Some (case grid a of
                             None \<Rightarrow> mountDataGrid freshBody freshHeader (app_data a) (app_headers a)
                           | Some g \<Rightarrow> replaceData freshBody freshHeader (app_data a) g)\<rparr>
      else a\<lparr>grid := None\<rparr>)"

definition handleFileChange ::
  "element \<Rightarrow> element \<Rightarrow> ('row list \<times> string list) option \<Rightarrow> 'row app_state \<Rightarrow> 'row app_state" where
  \<comment> \<open>The load of a chosen file; \<open>handleSampleClick\<close> is the same with the fetched
      text. The third argument is what the parser gives for the text, its rows and its
      field names, or \<open>None\<close> when reading or parsing throws. The loading flag is set
      and rendered before the text is awaited, the rows and the headers built from the
      fields are handed to \<open>handleCSVData\<close>, and the flag is cleared at the end.\<close>
  "handleFileChange freshBody freshHeader parsed a =
     (let a1 = renderApp freshBody freshHeader (a\<lparr>isLoading := True\<rparr>);
          a2 = (case parsed of
                  None \<Rightarrow> a1
                | Some (rows, names) \<Rightarrow> handleCSVData rows (map loader_column names) a1)
      in renderApp freshBody freshHeader (a2\<lparr>isLoading := False\<rparr>))"

definition gridScrollPosition :: "'row app_state \<Rightarrow> scroll_position option" where
  \<comment> \<open>the scroll position the rendered grid stores\<close>
  "gridScrollPosition a = map_option scrollPosition (grid a)"

definition gridBody :: "'row app_state \<Rightarrow> element option" where
  \<comment> \<open>the body region of the rendered grid\<close>
  "gridBody a = Option.bind (grid a) bodyRef"

definition gridHeader :: "'row app_state \<Rightarrow> element option" where
  \<comment> \<open>the header region of the rendered grid\<close>
  "gridHeader a = Option.bind (grid a) headerRef"

definition gridRange :: "'row order_by \<Rightarrow> real \<Rightarrow> 'row app_state \<Rightarrow> visible_range option" where
  \<comment> \<open>the range of rows the rendered grid shows\<close>
  "gridRange orderBy ROW_HEIGHT a = map_option (renderedRange orderBy ROW_HEIGHT) (grid a)"

section \<open>DataGridHeader: resizing against the column's own bounds\<close>

text \<open>
  \<open>handleResizeStart\<close> registers the \<open>handleResizeMove\<close> and \<open>handleResizeEnd\<close> of the
  render it belongs to as listeners of the document. They close over the state and the
  headers of that render, not over the state \<open>handleResizeStart\<close> sets.
\<close>

record header_state =
  resizingColumn :: "string option"
  hs_startX :: real
  hs_startWidth :: real

record resize_listener =
  captured_headers :: "header list"
  captured :: header_state

definition handleResizeStart ::
  "header list \<Rightarrow> string \<Rightarrow> real \<Rightarrow> header_state
     \<Rightarrow> (header_state \<times> resize_listener option) option" where
  \<comment> \<open>The result holds the new state and the listeners registered, if any;
      \<open>None\<close>: the column is not among the headers and reading \<open>resizable\<close> throws.\<close>
  "handleResizeStart hs headerId clientX st =
     (case find (\<lambda>h. col_id h = headerId) hs of
        None \<Rightarrow> None
      | Some hdr \<Rightarrow>
          if \<not> resizable hdr then Some (st, None)
          else Some (\<lparr>resizingColumn = Some headerId, hs_startX = clientX,
                       hs_startWidth = col_width hdr\<rparr>,
                     Some \<lparr>captured_headers = hs, captured = st\<rparr>))"

definition handleResizeMove :: "resize_listener \<Rightarrow> real \<Rightarrow> real option option" where
  \<comment> \<open>The result is the width the listener writes to the style of the header cell
      (when the cell's ref is attached), if it writes one; the outer \<open>None\<close>: the
      resized column is not among the headers.\<close>
  "handleResizeMove l clientX =
     (case resizingColumn (captured l) of
        None \<Rightarrow> Some None
      | Some rc \<Rightarrow>
          if rc = [] then Some None
          else case find (\<lambda>h. col_id h = rc) (captured_headers l) of
                 None \<Rightarrow> None
               | Some hdr \<Rightarrow>
                   let diff = clientX - hs_startX (captured l);
                       newWidth = max (minWidth hdr)
                                    (min (maxWidth hdr) (hs_startWidth (captured l) + diff))
                   in Some (Some newWidth))"

definition handleResizeEnd ::
  "resize_listener \<Rightarrow> real \<Rightarrow> header_state
     \<Rightarrow> (header_state \<times> (string \<times> real) option \<times> bool) option" where
  \<comment> \<open>The listener runs on the current state \<open>st\<close>. The result holds the new state,
      the arguments of the call of \<open>onResize\<close>, if one is made, and whether the listeners
      were removed; \<open>None\<close>: the resized column is not among the headers.\<close>
  "handleResizeEnd l clientX st =
     (case resizingColumn (captured l) of
        None \<Rightarrow> Some (st, None, False)
      | Some rc \<Rightarrow>
          if rc = [] then Some (st, None, False)
          else case find (\<lambda>h. col_id h = rc) (captured_headers l) of
                 None \<Rightarrow> None
               | Some hdr \<Rightarrow>
                   let diff = clientX - hs_startX (captured l);
                       newWidth = max (minWidth hdr)
                                    (min (maxWidth hdr) (hs_startWidth (captured l) + diff))
                   in Some (st\<lparr>resizingColumn := None\<rparr>, Some (rc, newWidth), True))"

section \<open>The window formula of the specification\<close>

record spec_window =
  sw_startIndex :: int
  sw_endIndex :: int
  sw_topOffsetPx :: real

definition computeWindow_spec :: "real \<Rightarrow> real \<Rightarrow> real \<Rightarrow> int \<Rightarrow> spec_window" where
  \<comment> \<open>written from the specification's algorithm, to compare the code with\<close>
  "computeWindow_spec scrollTop' viewportHeight rowHeight datasetLength =
     (let visibleCount = \<lceil>viewportHeight / rowHeight\<rceil>;
          overscan = \<lceil>of_int visibleCount * (0.5 :: real)\<rceil>;
          rawStart = \<lfloor>scrollTop' / rowHeight\<rfloor>;
          startIndex' = max 0 (rawStart - overscan);
          endIndex' = min (datasetLength - 1) (rawStart + visibleCount + overscan)
      in \<lparr>sw_startIndex = startIndex', sw_endIndex = endIndex',
          sw_topOffsetPx = of_int startIndex' * rowHeight\<rparr>)"

definition viewportHeightOf :: "element \<Rightarrow> 'row body_closure \<Rightarrow> real" where
  \<comment> \<open>the viewport height \<open>calculateVisibleRows\<close> works with\<close>
  "viewportHeightOf container cl = js_or (clientHeight container) (height (cl_dimensions cl))"

definition rowSpanVisible :: "int \<Rightarrow> real \<Rightarrow> real \<Rightarrow> real \<Rightarrow> bool" where
  \<comment> \<open>the pixel span \<open>[i * h, (i + 1) * h)\<close> of row \<open>i\<close> meets the visible interval
      \<open>[scrollTop, scrollTop + viewportHeight)\<close>\<close>
  "rowSpanVisible i h scrollTop' viewportHeight =
     (max (of_int i * h) scrollTop' < min ((of_int i + 1) * h) (scrollTop' + viewportHeight))"

section \<open>States used in the examples\<close>

definition initial_header_state :: header_state where
  \<comment> \<open>the \<^verbatim>\<open>useState\<close> initial values of DataGridHeader\<close>
  "initial_header_state = \<lparr>resizingColumn = None, hs_startX = 0, hs_startWidth = 0\<rparr>"

definition narrow_column :: header where
  \<comment> \<open>a column with bounds of its own, other than 50 and 500\<close>
  "narrow_column =
     \<lparr>col_id = ''name'', col_name = ''name'', col_width = 150, minWidth = 100, maxWidth = 300,
      resizable = True, sortable = True\<rparr>"

definition mounted_grid :: "'row list \<Rightarrow> header list \<Rightarrow> real \<Rightarrow> real \<Rightarrow> 'row grid_state" where
  \<comment> \<open>a grid with both regions mounted, scrolled to the offsets \<open>t\<close> and \<open>l\<close>\<close>
  "mounted_grid d hs t l =
     (initial_grid_state d hs)
       \<lparr>scrollPosition := \<lparr>pos_top = t, pos_left = l\<rparr>,
        bodyRef := Some \<lparr>scrollTop = t, scrollLeft = l, clientHeight = 300,
                          clientWidth = 800, scrollWidth = 1200\<rparr>,
        headerRef := Some \<lparr>scrollTop = 0, scrollLeft = l, clientHeight = 40,
                            clientWidth = 800, scrollWidth = 1200\<rparr>\<rparr>"

definition initial_app_state :: "'row app_state" where
  \<comment> \<open>the \<^verbatim>\<open>useState\<close> initial values of App, which renders no grid\<close>
  "initial_app_state = \<lparr>app_data = [], app_headers = [], isLoading = False, grid = None\<rparr>"

definition example_orderBy :: "nat order_by" where
  \<comment> \<open>an \<open>orderBy\<close> for rows that are numbers: it sorts them, in the one direction it
      is given\<close>
  "example_orderBy xs ks ds = (if ds = [''desc''] then rev (sort xs) else sort xs)"

definition plain_element :: element where
  \<comment> \<open>an element of the host, 800 by 300 pixels with content 1200 wide\<close>
  "plain_element =
     \<lparr>scrollTop = 0, scrollLeft = 0, clientHeight = 300, clientWidth = 800, scrollWidth = 1200\<rparr>"

section \<open>Arithmetic of the window and of slices\<close>

lemma rowSpanVisible_iff:
  "rowSpanVisible i h st vh \<longleftrightarrow>
     (\<exists>x. of_int i * h \<le> x \<and> x < (of_int i + 1) * h \<and> st \<le> x \<and> x < st + vh)"
  unfolding rowSpanVisible_def
proof
  assume a: "max (of_int i * h) st < min ((of_int i + 1) * h) (st + vh)"
  show "\<exists>x. of_int i * h \<le> x \<and> x < (of_int i + 1) * h \<and> st \<le> x \<and> x < st + vh"
    using a by (intro exI[of _ "max (of_int i * h) st"]) simp
next
  assume "\<exists>x. of_int i * h \<le> x \<and> x < (of_int i + 1) * h \<and> st \<le> x \<and> x < st + vh"
  then show "max (of_int i * h) st < min ((of_int i + 1) * h) (st + vh)"
    by auto
qed



lemma visibleCount_nonneg: "0 \<le> vh \<Longrightarrow> 0 < h \<Longrightarrow> 0 \<le> \<lceil>vh / h :: real\<rceil>"
  using ceiling_mono [of 0 "vh / h"] by simp

lemma overscan_nonneg: "0 \<le> k \<Longrightarrow> 0 \<le> \<lceil>of_int k * (0.5 :: real)\<rceil>"
  using ceiling_mono [of 0 "of_int k * (0.5 :: real)"] by simp

lemma visible_row_bounds:
  assumes h: "0 < h" and v: "rowSpanVisible i h st vh"
  shows "\<lfloor>st / h\<rfloor> \<le> i" and "i \<le> \<lfloor>st / h\<rfloor> + \<lceil>vh / h\<rceil>" and "0 < vh"
proof -
  from v have 1: "st < (of_int i + 1) * h" and 2: "of_int i * h < st + vh"
    and 3: "st < st + vh"
    unfolding rowSpanVisible_def by auto
  from 1 h have "st / h < of_int (i + 1)" by (simp add: pos_divide_less_eq)
  then have "\<lfloor>st / h\<rfloor> < i + 1" by (simp only: floor_less_iff)
  then show "\<lfloor>st / h\<rfloor> \<le> i" by simp
  from 2 h have "of_int i < (st + vh) / h" by (simp add: pos_less_divide_eq)
  also have "\<dots> = st / h + vh / h" by (simp add: add_divide_distrib)
  also have "\<dots> < (of_int \<lfloor>st / h\<rfloor> + 1) + of_int \<lceil>vh / h\<rceil>"
    by (intro add_less_le_mono) linarith+
  finally have "of_int i < (of_int (\<lfloor>st / h\<rfloor> + 1 + \<lceil>vh / h\<rceil>) :: real)" by simp
  then have "i < \<lfloor>st / h\<rfloor> + 1 + \<lceil>vh / h\<rceil>" by (simp only: of_int_less_iff)
  then show "i \<le> \<lfloor>st / h\<rfloor> + \<lceil>vh / h\<rceil>" by simp
  from 3 show "0 < vh" by simp
qed

lemma slice_nth:
  assumes "0 \<le> a" "a \<le> i" "i < b" "b \<le> int (length xs)"
  shows "nat (i - a) < length (slice xs a b)" and "slice xs a b ! nat (i - a) = xs ! nat i"
proof -
  have eq: "slice xs a b = take (nat (b - a)) (drop (nat a) xs)"
    using assms by (simp add: slice_def Let_def min_def)
  have j: "nat (i - a) < nat (b - a)" using assms by linarith
  have le: "nat a + nat (i - a) = nat i" "nat b \<le> length xs" "nat (b - a) = nat b - nat a"
    using assms by linarith+
  have j2: "nat (i - a) < length xs - nat a" using j le by linarith
  show "nat (i - a) < length (slice xs a b)"
    using j j2 by (simp add: eq)
  have al: "nat a \<le> length xs" using assms by linarith
  have "slice xs a b ! nat (i - a) = drop (nat a) xs ! nat (i - a)"
    using j by (simp add: eq)
  also have "\<dots> = xs ! (nat a + nat (i - a))"
    using al by (rule nth_drop)
  finally show "slice xs a b ! nat (i - a) = xs ! nat i"
    by (simp only: le)
qed



lemma slice_empty_range: "0 \<le> a \<Longrightarrow> 0 \<le> b \<Longrightarrow> b \<le> a \<Longrightarrow> slice xs a b = []"
  by (auto simp: slice_def Let_def min_def)


lemma calculateVisibleRows_Some:
  "calculateVisibleRows (Some c) cl s =
     (let W = computeWindow_spec (scrollTop c) (viewportHeightOf c cl) (cl_measuredRowHeight cl)
                (int (length (cl_data cl)))
      in (s\<lparr>startIndex := sw_startIndex W,
            visibleRows := slice (cl_data cl) (sw_startIndex W) (sw_endIndex W + 1),
            scrollTicking := False\<rparr>,
          Some \<lparr>log_start = sw_startIndex W, log_end = sw_endIndex W,
                log_visibleCount = sw_endIndex W - sw_startIndex W + 1,
                log_overscanRowCount =
                  \<lceil>of_int \<lceil>viewportHeightOf c cl / cl_measuredRowHeight cl\<rceil> * (0.5 :: real)\<rceil>,
                log_rowHeight = cl_measuredRowHeight cl\<rparr>))"
  by (simp add: calculateVisibleRows_def computeWindow_spec_def viewportHeightOf_def Let_def)


lemma visibleRowsCount_covers:
  assumes "0 < ROW_HEIGHT" "vh \<le> js_or (height (grid_dimensions g)) 300"
  shows "\<lceil>vh / ROW_HEIGHT\<rceil> \<le> visibleRowsCount ROW_HEIGHT g"
proof -
  have "vh / ROW_HEIGHT \<le> js_or (height (grid_dimensions g)) 300 / ROW_HEIGHT"
    using assms by (simp add: divide_right_mono)
  then have "\<lceil>vh / ROW_HEIGHT\<rceil> \<le> \<lceil>js_or (height (grid_dimensions g)) 300 / ROW_HEIGHT\<rceil>"
    by (rule ceiling_mono)
  then show ?thesis by (simp add: visibleRowsCount_def)
qed

lemma visibleRange_covers:
  assumes h: "0 < ROW_HEIGHT" and i: "0 \<le> i" "i < int (length d)"
    and v: "rowSpanVisible i ROW_HEIGHT st vh"
    and c: "\<lceil>vh / ROW_HEIGHT\<rceil> \<le> visibleRowsCount' + 1"
  shows "vr_startIndex (visibleRange ROW_HEIGHT d visibleRowsCount' st) \<le> i"
    and "i < vr_endIndex (visibleRange ROW_HEIGHT d visibleRowsCount' st)"
    and "0 \<le> vr_startIndex (visibleRange ROW_HEIGHT d visibleRowsCount' st)"
    and "vr_endIndex (visibleRange ROW_HEIGHT d visibleRowsCount' st) \<le> int (length d)"
proof -
  have lo: "\<lfloor>st / ROW_HEIGHT\<rfloor> \<le> i" and hi: "i \<le> \<lfloor>st / ROW_HEIGHT\<rfloor> + \<lceil>vh / ROW_HEIGHT\<rceil>"
    using visible_row_bounds [OF h v] by auto
  show "vr_startIndex (visibleRange ROW_HEIGHT d visibleRowsCount' st) \<le> i"
    using lo i by (simp add: visibleRange_def Let_def)
  show "i < vr_endIndex (visibleRange ROW_HEIGHT d visibleRowsCount' st)"
    using hi c i by (simp add: visibleRange_def Let_def)
  show "0 \<le> vr_startIndex (visibleRange ROW_HEIGHT d visibleRowsCount' st)"
    by (simp add: visibleRange_def Let_def)
  show "vr_endIndex (visibleRange ROW_HEIGHT d visibleRowsCount' st) \<le> int (length d)"
    by (simp add: visibleRange_def Let_def)
qed



lemma calculateVisibleRows_covers:
  assumes h: "0 < cl_measuredRowHeight cl"
    and i: "0 \<le> i" "i < int (length (cl_data cl))"
    and v: "rowSpanVisible i (cl_measuredRowHeight cl) (scrollTop c) (viewportHeightOf c cl)"
  shows "\<exists>s' lg. calculateVisibleRows (Some c) cl s = (s', Some lg)
           \<and> log_start lg \<le> i \<and> i \<le> log_end lg
           \<and> startIndex s' = log_start lg
           \<and> nat (i - log_start lg) < length (visibleRows s')
           \<and> visibleRows s' ! nat (i - log_start lg) = cl_data cl ! nat i"
proof -
  define d where "d = cl_data cl"
  define raw where "raw = \<lfloor>scrollTop c / cl_measuredRowHeight cl\<rfloor>"
  define vis where "vis = \<lceil>viewportHeightOf c cl / cl_measuredRowHeight cl\<rceil>"
  define ov where "ov = \<lceil>of_int vis * (0.5 :: real)\<rceil>"
  define a where "a = max 0 (raw - ov)"
  define b where "b = min (int (length d) - 1) (raw + vis + ov)"
  have W: "computeWindow_spec (scrollTop c) (viewportHeightOf c cl) (cl_measuredRowHeight cl)
             (int (length (cl_data cl)))
           = \<lparr>sw_startIndex = a, sw_endIndex = b,
              sw_topOffsetPx = of_int a * cl_measuredRowHeight cl\<rparr>"
    by (simp add: computeWindow_spec_def Let_def raw_def vis_def ov_def a_def b_def d_def)
  have lo: "raw \<le> i" and hi: "i \<le> raw + vis" and vh: "0 < viewportHeightOf c cl"
    unfolding raw_def vis_def using visible_row_bounds [OF h v] by auto
  have vis0: "0 \<le> vis" unfolding vis_def using vh h by (intro visibleCount_nonneg) auto
  have ov0: "0 \<le> ov" unfolding ov_def using vis0 by (rule overscan_nonneg)
  have a0: "0 \<le> a" by (simp add: a_def)
  have ai: "a \<le> i" using lo ov0 i by (simp add: a_def)
  have ib: "i \<le> b" using hi ov0 i by (simp add: b_def d_def)
  have bl: "b + 1 \<le> int (length d)" by (simp add: b_def)
  have "nat (i - a) < length (slice d a (b + 1))" "slice d a (b + 1) ! nat (i - a) = d ! nat i"
    using a0 ai ib bl by (auto intro!: slice_nth)
  then show ?thesis
    using ai ib by (simp add: calculateVisibleRows_Some W Let_def d_def)
qed

lemma renderedRange_covers:
  assumes h: "0 < ROW_HEIGHT"
    and i: "0 \<le> i" "i < int (length (sortedData orderBy (data g) (sortConfig g)))"
    and v: "rowSpanVisible i ROW_HEIGHT (pos_top (scrollPosition g)) vh"
    and c: "vh \<le> js_or (height (grid_dimensions g)) 300"
  shows "vr_startIndex (renderedRange orderBy ROW_HEIGHT g) \<le> i
         \<and> i < vr_endIndex (renderedRange orderBy ROW_HEIGHT g)
         \<and> nat (i - vr_startIndex (renderedRange orderBy ROW_HEIGHT g))
             < length (visibleData (sortedData orderBy (data g) (sortConfig g))
                        (renderedRange orderBy ROW_HEIGHT g))
         \<and> visibleData (sortedData orderBy (data g) (sortConfig g))
               (renderedRange orderBy ROW_HEIGHT g)
             ! nat (i - vr_startIndex (renderedRange orderBy ROW_HEIGHT g))
           = sortedData orderBy (data g) (sortConfig g) ! nat i"
proof -
  define view where "view = sortedData orderBy (data g) (sortConfig g)"
  define r where "r = renderedRange orderBy ROW_HEIGHT g"
  have r: "r = visibleRange ROW_HEIGHT view (visibleRowsCount ROW_HEIGHT g)
                 (pos_top (scrollPosition g))"
    by (simp add: r_def renderedRange_def view_def)
  have "\<lceil>vh / ROW_HEIGHT\<rceil> \<le> visibleRowsCount ROW_HEIGHT g"
    using h c by (rule visibleRowsCount_covers)
  then have c': "\<lceil>vh / ROW_HEIGHT\<rceil> \<le> visibleRowsCount ROW_HEIGHT g + 1" by simp
  have i': "i < int (length view)" using i by (simp add: view_def)
  note cov = visibleRange_covers [OF h i(1) i' v c']
  have 1: "vr_startIndex r \<le> i" and 2: "i < vr_endIndex r" and 3: "0 \<le> vr_startIndex r"
    and 4: "vr_endIndex r \<le> int (length view)"
    using cov by (simp_all add: r)
  have "nat (i - vr_startIndex r) < length (slice view (vr_startIndex r) (vr_endIndex r))"
    "slice view (vr_startIndex r) (vr_endIndex r) ! nat (i - vr_startIndex r) = view ! nat i"
    using 1 2 3 4 by (auto intro!: slice_nth)
  then show ?thesis
    using 1 2 by (simp add: visibleData_def r_def view_def)
qed


section \<open>The viewport window\<close>

text \<open>
  Claim C1, as stated, fails for the window DataGrid renders. At the claim's example,
  10000 rows of height 35 in a container of height 300 at scroll offset 3500,
  VirtualizedRows computes the range 100 to 112, where the formula gives 95 and 114.
\<close>

theorem C1_window_formula_counterexample:
  "key (sortConfig (mounted_grid (replicate 10000 (0 :: nat)) [loader_column ''age''] 3500 0
        \<lparr>grid_dimensions := \<lparr>width = 800, height = 300\<rparr>\<rparr>)) = None
   \<and> visibleRowsCount 35
     (mounted_grid (replicate 10000 (0 :: nat)) [loader_column ''age''] 3500 0
        \<lparr>grid_dimensions := \<lparr>width = 800, height = 300\<rparr>\<rparr>) = 10
   \<and> visibleRange 35 (replicate 10000 (0 :: nat))
       (visibleRowsCount 35
          (mounted_grid (replicate 10000 (0 :: nat)) [loader_column ''age''] 3500 0
             \<lparr>grid_dimensions := \<lparr>width = 800, height = 300\<rparr>\<rparr>))
       (pos_top (scrollPosition
          (mounted_grid (replicate 10000 (0 :: nat)) [loader_column ''age''] 3500 0
             \<lparr>grid_dimensions := \<lparr>width = 800, height = 300\<rparr>\<rparr>)))
       = \<lparr>vr_startIndex = 100, vr_endIndex = 112\<rparr>
   \<and> sw_startIndex (computeWindow_spec 3500 300 35 10000) = 95
   \<and> sw_endIndex (computeWindow_spec 3500 300 35 10000) = 114"
  by (simp add: visibleRange_def visibleRowsCount_def
        mounted_grid_def initial_grid_state_def js_or_def computeWindow_spec_def Let_def)

text \<open>
  Claim C1, amended. For a positive row height, \<open>calculateVisibleRows\<close> of DataGridBody
  computes the window of the specification's formula from the container's scroll
  offset and from the values it closes over: the viewport height it works with, the row
  height and the length of the dataset. The logged start and end are those of
  \<open>computeWindow_spec\<close>, the stored start index is the logged one, and the rendered rows
  are the slice from start to end inclusive; when the function is the current render's,
  the top offset of the rendered rows is the formula's too. At the example it gives 95
  and 114. The range DataGrid renders through VirtualizedRows starts at
  \<open>max 0 \<lfloor>scrollTop / ROW_HEIGHT\<rfloor>\<close>, ends, exclusively, at the smaller of the length
  of the sorted view and the start plus the visible count plus 2, where the visible
  count is \<open>max 10 \<lceil>(height || 300) / ROW_HEIGHT\<rceil>\<close>, and is placed at the start times
  \<open>ROW_HEIGHT\<close>. At the example it is 100 to 112.
\<close>

theorem C1_window_formula:
  assumes h: "0 < cl_measuredRowHeight cl" and hs: "0 < measuredRowHeight s"
    and rh: "0 < ROW_HEIGHT"
  shows "(\<exists>s' lg. calculateVisibleRows (Some c) cl s = (s', Some lg)
            \<and> \<lparr>sw_startIndex = log_start lg, sw_endIndex = log_end lg,
                sw_topOffsetPx = of_int (log_start lg) * cl_measuredRowHeight cl\<rparr>
              = computeWindow_spec (scrollTop c) (viewportHeightOf c cl)
                  (cl_measuredRowHeight cl) (int (length (cl_data cl)))
            \<and> startIndex s' = log_start lg
            \<and> visibleRows s' = slice (cl_data cl) (log_start lg) (log_end lg + 1))
       \<and> (\<exists>s' lg. calculateVisibleRows (Some c) (currentRender d s) s = (s', Some lg)
            \<and> \<lparr>sw_startIndex = log_start lg, sw_endIndex = log_end lg,
                sw_topOffsetPx = virtualRowsTop s'\<rparr>
              = computeWindow_spec (scrollTop c) (viewportHeightOf c (currentRender d s))
                  (measuredRowHeight s) (int (length d)))
       \<and> (\<exists>s' lg. calculateVisibleRows
                    (Some \<lparr>scrollTop = 3500, scrollLeft = x, clientHeight = 300,
                           clientWidth = w, scrollWidth = sw\<rparr>)
                    (currentRender (replicate 10000 r) initial_body_state)
                    initial_body_state = (s', Some lg)
            \<and> log_start lg = 95 \<and> log_end lg = 114 \<and> startIndex s' = 95)
       \<and> renderedRange orderBy ROW_HEIGHT g
           = \<lparr>vr_startIndex = max 0 \<lfloor>pos_top (scrollPosition g) / ROW_HEIGHT\<rfloor>,
              vr_endIndex =
                min (int (length (sortedData orderBy (data g) (sortConfig g))))
                  (max 0 \<lfloor>pos_top (scrollPosition g) / ROW_HEIGHT\<rfloor>
                   + max 10 \<lceil>js_or (height (grid_dimensions g)) 300 / ROW_HEIGHT\<rceil> + 2)\<rparr>
       \<and> offsetY ROW_HEIGHT (renderedRange orderBy ROW_HEIGHT g)
           = of_int (vr_startIndex (renderedRange orderBy ROW_HEIGHT g)) * ROW_HEIGHT
       \<and> renderedRange orderBy 35
            (mounted_grid (replicate 10000 r) hdrs 3500 x
               \<lparr>grid_dimensions := \<lparr>width = w, height = 300\<rparr>\<rparr>)
           = \<lparr>vr_startIndex = 100, vr_endIndex = 112\<rparr>"
proof (intro conjI)
  show "\<exists>s' lg. calculateVisibleRows (Some c) cl s = (s', Some lg)
            \<and> \<lparr>sw_startIndex = log_start lg, sw_endIndex = log_end lg,
                sw_topOffsetPx = of_int (log_start lg) * cl_measuredRowHeight cl\<rparr>
              = computeWindow_spec (scrollTop c) (viewportHeightOf c cl)
                  (cl_measuredRowHeight cl) (int (length (cl_data cl)))
            \<and> startIndex s' = log_start lg
            \<and> visibleRows s' = slice (cl_data cl) (log_start lg) (log_end lg + 1)"
    by (simp add: calculateVisibleRows_Some Let_def computeWindow_spec_def)
  show "\<exists>s' lg. calculateVisibleRows (Some c) (currentRender d s) s = (s', Some lg)
            \<and> \<lparr>sw_startIndex = log_start lg, sw_endIndex = log_end lg,
                sw_topOffsetPx = virtualRowsTop s'\<rparr>
              = computeWindow_spec (scrollTop c) (viewportHeightOf c (currentRender d s))
                  (measuredRowHeight s) (int (length d))"
    by (simp add: calculateVisibleRows_Some Let_def computeWindow_spec_def virtualRowsTop_def
          currentRender_def)
  show "\<exists>s' lg. calculateVisibleRows
                    (Some \<lparr>scrollTop = 3500, scrollLeft = x, clientHeight = 300,
                           clientWidth = w, scrollWidth = sw\<rparr>)
                    (currentRender (replicate 10000 r) initial_body_state)
                    initial_body_state = (s', Some lg)
            \<and> log_start lg = 95 \<and> log_end lg = 114 \<and> startIndex s' = 95"
    by (simp add: calculateVisibleRows_def currentRender_def initial_body_state_def js_or_def
          Let_def)
  show "renderedRange orderBy ROW_HEIGHT g
           = \<lparr>vr_startIndex = max 0 \<lfloor>pos_top (scrollPosition g) / ROW_HEIGHT\<rfloor>,
              vr_endIndex =
                min (int (length (sortedData orderBy (data g) (sortConfig g))))
                  (max 0 \<lfloor>pos_top (scrollPosition g) / ROW_HEIGHT\<rfloor>
                   + max 10 \<lceil>js_or (height (grid_dimensions g)) 300 / ROW_HEIGHT\<rceil> + 2)\<rparr>"
    by (simp add: renderedRange_def visibleRange_def visibleRowsCount_def Let_def)
  show "offsetY ROW_HEIGHT (renderedRange orderBy ROW_HEIGHT g)
           = of_int (vr_startIndex (renderedRange orderBy ROW_HEIGHT g)) * ROW_HEIGHT"
    by (simp add: offsetY_def)
  show "renderedRange orderBy 35
            (mounted_grid (replicate 10000 r) hdrs 3500 x
               \<lparr>grid_dimensions := \<lparr>width = w, height = 300\<rparr>\<rparr>)
           = \<lparr>vr_startIndex = 100, vr_endIndex = 112\<rparr>"
    by (simp add: renderedRange_def visibleRange_def visibleRowsCount_def sortedData_def
          mounted_grid_def initial_grid_state_def js_or_def Let_def)
qed

theorem C1_window_formula_witness:
  "0 < cl_measuredRowHeight (currentRender (replicate 1000 ()) initial_body_state)
   \<and> 0 < measuredRowHeight (initial_body_state :: unit body_state)
   \<and> (0 :: real) < 35
   \<and> map_option log_start (snd (calculateVisibleRows
         (Some \<lparr>scrollTop = 700, scrollLeft = 0, clientHeight = 300,
                clientWidth = 800, scrollWidth = 1200\<rparr>)
         (currentRender (replicate 1000 ()) initial_body_state) initial_body_state)) = Some 15
   \<and> map_option log_end (snd (calculateVisibleRows
         (Some \<lparr>scrollTop = 700, scrollLeft = 0, clientHeight = 300,
                clientWidth = 800, scrollWidth = 1200\<rparr>)
         (currentRender (replicate 1000 ()) initial_body_state) initial_body_state)) = Some 34
   \<and> renderedRange (\<lambda>xs ks ds. rev xs) 35
        (mounted_grid (replicate 1000 ()) [loader_column ''age''] 700 0)
       = \<lparr>vr_startIndex = 20, vr_endIndex = 32\<rparr>"
proof -
  let ?s = "initial_body_state :: unit body_state"
  let ?cl = "currentRender (replicate 1000 ()) ?s"
  have h: "0 < cl_measuredRowHeight ?cl"
    by (simp add: currentRender_def initial_body_state_def)
  have hs: "0 < measuredRowHeight ?s"
    by (simp add: initial_body_state_def)
  have rh: "(0 :: real) < 35" by simp
  show ?thesis
    using h hs C1_window_formula [OF h hs rh, of
        "\<lparr>scrollTop = 700, scrollLeft = 0, clientHeight = 300,
          clientWidth = 800, scrollWidth = 1200\<rparr>" "replicate 1000 ()"
        _ _ _ _ "\<lambda>xs ks ds. rev xs"
        "mounted_grid (replicate 1000 ()) [loader_column ''age''] 700 0"]
    by (simp add: calculateVisibleRows_def currentRender_def initial_body_state_def js_or_def
          sortedData_def mounted_grid_def initial_grid_state_def Let_def)
qed




text \<open>
  Claim C3, as stated, fails for the range DataGrid renders while the container has not
  been measured: the visible count is then 10, whatever the height of the body. With a
  body 600 pixels high at scroll offset 0, row 15 of height 35 is visible and the range
  ends, exclusively, at 12.
\<close>

theorem C3_visible_rows_in_window_counterexample:
  "map_option clientHeight (bodyRef
      (mounted_grid (replicate 1000 ()) [loader_column ''age''] 0 0
         \<lparr>bodyRef := Some \<lparr>scrollTop = 0, scrollLeft = 0, clientHeight = 600,
                            clientWidth = 800, scrollWidth = 1200\<rparr>\<rparr>)) = Some 600
   \<and> rowSpanVisible 15 35 0 600
   \<and> (15 :: int) < int (length (replicate 1000 ()))
   \<and> visibleRange 35 (replicate 1000 ())
        (visibleRowsCount 35
           (mounted_grid (replicate 1000 ()) [loader_column ''age''] 0 0
              \<lparr>bodyRef := Some \<lparr>scrollTop = 0, scrollLeft = 0, clientHeight = 600,
                                 clientWidth = 800, scrollWidth = 1200\<rparr>\<rparr>))
        (pos_top (scrollPosition
           (mounted_grid (replicate 1000 ()) [loader_column ''age''] 0 0
              \<lparr>bodyRef := Some \<lparr>scrollTop = 0, scrollLeft = 0, clientHeight = 600,
                                 clientWidth = 800, scrollWidth = 1200\<rparr>\<rparr>)))
       = \<lparr>vr_startIndex = 0, vr_endIndex = 12\<rparr>
   \<and> \<not> (15 :: int) < 12"
  by (simp add: rowSpanVisible_def visibleRange_def visibleRowsCount_def mounted_grid_def
        initial_grid_state_def js_or_def Let_def)

text \<open>
  Claim C3, amended. For a positive row height, every row of the dataset whose pixel
  span meets the visible interval lies between the start and the end index that
  \<open>calculateVisibleRows\<close> computes, and is among the rows it renders, at its position
  counted from the start index. The range DataGrid renders contains every such row of
  the sorted view, and the rendered slice holds it at its position, when the viewport is
  not higher than the container height DataGrid works with (the measured height, 300
  while it is 0).
\<close>

theorem C3_visible_rows_in_window:
  assumes h: "0 < cl_measuredRowHeight cl"
    and i: "0 \<le> i" "i < int (length (cl_data cl))"
    and v: "rowSpanVisible i (cl_measuredRowHeight cl) (scrollTop c) (viewportHeightOf c cl)"
    and rh: "0 < ROW_HEIGHT"
    and j: "0 \<le> j" "j < int (length (sortedData orderBy (data g) (sortConfig g)))"
    and rv: "rowSpanVisible j ROW_HEIGHT (pos_top (scrollPosition g)) vh"
    and rc: "vh \<le> js_or (height (grid_dimensions g)) 300"
  shows "(\<exists>s' lg. calculateVisibleRows (Some c) cl s = (s', Some lg)
           \<and> log_start lg \<le> i \<and> i \<le> log_end lg
           \<and> startIndex s' = log_start lg
           \<and> nat (i - log_start lg) < length (visibleRows s')
           \<and> visibleRows s' ! nat (i - log_start lg) = cl_data cl ! nat i)
      \<and> (vr_startIndex (renderedRange orderBy ROW_HEIGHT g) \<le> j
         \<and> j < vr_endIndex (renderedRange orderBy ROW_HEIGHT g)
         \<and> nat (j - vr_startIndex (renderedRange orderBy ROW_HEIGHT g))
             < length (visibleData (sortedData orderBy (data g) (sortConfig g))
                        (renderedRange orderBy ROW_HEIGHT g))
         \<and> visibleData (sortedData orderBy (data g) (sortConfig g))
               (renderedRange orderBy ROW_HEIGHT g)
             ! nat (j - vr_startIndex (renderedRange orderBy ROW_HEIGHT g))
           = sortedData orderBy (data g) (sortConfig g) ! nat j)"
  using calculateVisibleRows_covers [OF h i v, of s] renderedRange_covers [OF rh j rv rc]
  by (rule conjI)

theorem C3_visible_rows_in_window_witness:
  "0 < cl_measuredRowHeight (currentRender (replicate 1000 ()) initial_body_state)
   \<and> (0 :: int) \<le> 28 \<and> (28 :: int) < int (length (replicate 1000 ()))
   \<and> rowSpanVisible 28 35 700 300
   \<and> (300 :: real) \<le> js_or 0 300
   \<and> map_option log_start (snd (calculateVisibleRows
         (Some \<lparr>scrollTop = 700, scrollLeft = 0, clientHeight = 300,
                clientWidth = 800, scrollWidth = 1200\<rparr>)
         (currentRender (replicate 1000 ()) initial_body_state) initial_body_state)) = Some 15
   \<and> map_option log_end (snd (calculateVisibleRows
         (Some \<lparr>scrollTop = 700, scrollLeft = 0, clientHeight = 300,
                clientWidth = 800, scrollWidth = 1200\<rparr>)
         (currentRender (replicate 1000 ()) initial_body_state) initial_body_state)) = Some 34
   \<and> renderedRange (\<lambda>xs ks ds. rev xs) 35
        (mounted_grid (replicate 1000 ()) [loader_column ''age''] 700 0)
       = \<lparr>vr_startIndex = 20, vr_endIndex = 32\<rparr>"
proof -
  let ?c = "\<lparr>scrollTop = 700, scrollLeft = 0, clientHeight = 300,
             clientWidth = 800, scrollWidth = 1200\<rparr>"
  let ?s = "initial_body_state :: unit body_state"
  let ?cl = "currentRender (replicate 1000 ()) ?s"
  let ?g = "mounted_grid (replicate 1000 ()) [loader_column ''age''] 700 0"
  let ?o = "\<lambda>(xs :: unit list) (ks :: string list) (ds :: string list). rev xs"
  have h: "0 < cl_measuredRowHeight ?cl"
    by (simp add: currentRender_def initial_body_state_def)
  have i: "(0 :: int) \<le> 28" "(28 :: int) < int (length (cl_data ?cl))"
    by (simp_all add: currentRender_def)
  have v: "rowSpanVisible 28 (cl_measuredRowHeight ?cl) (scrollTop ?c) (viewportHeightOf ?c ?cl)"
    by (simp add: rowSpanVisible_def currentRender_def initial_body_state_def
          viewportHeightOf_def js_or_def)
  have v': "rowSpanVisible 28 35 700 300"
    by (simp add: rowSpanVisible_def)
  have rh: "(0 :: real) < 35" by simp
  have j: "(0 :: int) \<le> 28" "(28 :: int) < int (length (sortedData ?o (data ?g) (sortConfig ?g)))"
    by (simp_all add: sortedData_def mounted_grid_def initial_grid_state_def)
  have rv: "rowSpanVisible 28 35 (pos_top (scrollPosition ?g)) 300"
    by (simp add: rowSpanVisible_def mounted_grid_def)
  have rc: "(300 :: real) \<le> js_or (height (grid_dimensions ?g)) 300"
    by (simp add: js_or_def mounted_grid_def initial_grid_state_def)
  have rc': "(300 :: real) \<le> js_or 0 300" by (simp add: js_or_def)
  show ?thesis
    using h v' rc' C3_visible_rows_in_window [OF h i v rh j rv rc, of ?s]
    by (simp add: calculateVisibleRows_def currentRender_def initial_body_state_def js_or_def
          renderedRange_def visibleRange_def visibleRowsCount_def
          sortedData_def mounted_grid_def initial_grid_state_def Let_def)
qed

section \<open>Sorting\<close>

text \<open>
  Claim C4. Activating column \<open>k\<close>: from ascending on \<open>k\<close> the state becomes descending
  on \<open>k\<close>; from descending on \<open>k\<close> it becomes unsorted (no key, direction ascending);
  in every other case it becomes ascending on \<open>k\<close>. A click on a sortable header
  applies this transition to the stored sort state.
\<close>

theorem C4_three_state_toggle:
  "(key c = Some k \<and> direction c = ''asc''
      \<longrightarrow> handleSort k c = \<lparr>key = Some k, direction = ''desc''\<rparr>)
   \<and> (key c = Some k \<and> direction c = ''desc''
      \<longrightarrow> handleSort k c = \<lparr>key = None, direction = ''asc''\<rparr>)
   \<and> (\<not> (key c = Some k \<and> (direction c = ''asc'' \<or> direction c = ''desc''))
      \<longrightarrow> handleSort k c = \<lparr>key = Some k, direction = ''asc''\<rparr>)
   \<and> (sortable hdr \<longrightarrow> sortConfig (headerClick hdr s) = handleSort (col_id hdr) (sortConfig s))"
  by (auto simp: handleSort_def headerClick_def)

theorem C4_three_state_toggle_witness:
  "handleSort ''age'' \<lparr>key = None, direction = ''asc''\<rparr>
       = \<lparr>key = Some ''age'', direction = ''asc''\<rparr>
   \<and> handleSort ''age'' \<lparr>key = Some ''age'', direction = ''asc''\<rparr>
       = \<lparr>key = Some ''age'', direction = ''desc''\<rparr>
   \<and> handleSort ''age'' \<lparr>key = Some ''age'', direction = ''desc''\<rparr>
       = \<lparr>key = None, direction = ''asc''\<rparr>
   \<and> handleSort ''age'' \<lparr>key = Some ''name'', direction = ''desc''\<rparr>
       = \<lparr>key = Some ''age'', direction = ''asc''\<rparr>
   \<and> sortConfig (headerClick
         \<lparr>col_id = ''age'', col_name = ''age'', col_width = 150, minWidth = 50,
          maxWidth = 500, resizable = True, sortable = True\<rparr>
         (initial_grid_state [()] []))
       = \<lparr>key = Some ''age'', direction = ''asc''\<rparr>"
proof -
  let ?h = "\<lparr>col_id = ''age'', col_name = ''age'', col_width = 150, minWidth = 50,
             maxWidth = 500, resizable = True, sortable = True\<rparr>"
  let ?s = "initial_grid_state [()] []"
  note t = C4_three_state_toggle [where hdr = ?h and s = ?s and k = "''age''"]
  show ?thesis
    using t [of "\<lparr>key = None, direction = ''asc''\<rparr>"]
      t [of "\<lparr>key = Some ''age'', direction = ''asc''\<rparr>"]
      t [of "\<lparr>key = Some ''age'', direction = ''desc''\<rparr>"]
      t [of "\<lparr>key = Some ''name'', direction = ''desc''\<rparr>"]
    by (simp add: initial_grid_state_def)
qed

lemma handleSort_thrice:
  assumes "key c \<noteq> Some k"
  shows "handleSort k (handleSort k (handleSort k c)) = \<lparr>key = None, direction = ''asc''\<rparr>"
  using assms by (simp add: handleSort_def)

text \<open>
  Claim C5. Deriving the sorted view leaves the array of the dataset, and every other
  array of the store, as it was; the view holds what \<open>sortedData\<close> computes; without an
  active key the view is the dataset's own array, so the view is the dataset in its
  original order; and three activations of a column that is not the active one lead back
  to the dataset in its original order.
\<close>

theorem C5_sorted_view_keeps_source:
  "(dataRef < length st \<longrightarrow>
      (case sortedData_store orderBy dataRef cfg st of
         (r, st') \<Rightarrow>
            st' ! dataRef = st ! dataRef
            \<and> take (length st) st' = st
            \<and> r < length st'
            \<and> st' ! r = sortedData orderBy (st ! dataRef) cfg
            \<and> (if falsy_key (key cfg) then r = dataRef \<and> st' = st else r = length st)))
   \<and> (falsy_key (key cfg) \<longrightarrow> sortedData orderBy d cfg = d)
   \<and> (key cfg \<noteq> Some k \<longrightarrow>
        sortedData orderBy d (handleSort k (handleSort k (handleSort k cfg))) = d)"
proof (intro conjI impI)
  assume "dataRef < length st"
  then show "case sortedData_store orderBy dataRef cfg st of
         (r, st') \<Rightarrow>
            st' ! dataRef = st ! dataRef
            \<and> take (length st) st' = st
            \<and> r < length st'
            \<and> st' ! r = sortedData orderBy (st ! dataRef) cfg
            \<and> (if falsy_key (key cfg) then r = dataRef \<and> st' = st else r = length st)"
    by (simp add: sortedData_store_def sortedData_def alloc_def nth_append falsy_key_def
          split: option.split)
next
  assume "falsy_key (key cfg)"
  then show "sortedData orderBy d cfg = d"
    by (simp add: sortedData_def falsy_key_def split: option.splits)
next
  assume "key cfg \<noteq> Some k"
  then have "handleSort k (handleSort k (handleSort k cfg)) = \<lparr>key = None, direction = ''asc''\<rparr>"
    by (rule handleSort_thrice)
  then show "sortedData orderBy d (handleSort k (handleSort k (handleSort k cfg))) = d"
    by (simp add: sortedData_def)
qed

theorem C5_sorted_view_keeps_source_witness:
  "(0 :: nat) < length [[3, 1, 2 :: int]]
   \<and> sortedData_store (\<lambda>xs ks ds. if ds = [''desc''] then rev (sort xs) else sort xs) 0
        \<lparr>key = Some ''age'', direction = ''desc''\<rparr> [[3, 1, 2 :: int]]
       = (1, [[3, 1, 2], [3, 2, 1]])
   \<and> falsy_key (key \<lparr>key = None, direction = ''asc''\<rparr>)
   \<and> sortedData (\<lambda>xs ks ds. if ds = [''desc''] then rev (sort xs) else sort xs) [3, 1, 2 :: int]
        \<lparr>key = None, direction = ''asc''\<rparr> = [3, 1, 2]
   \<and> key \<lparr>key = None, direction = ''asc''\<rparr> \<noteq> Some ''age''
   \<and> sortedData (\<lambda>xs ks ds. if ds = [''desc''] then rev (sort xs) else sort xs) [3, 1, 2 :: int]
        (handleSort ''age'' (handleSort ''age'' (handleSort ''age''
           \<lparr>key = None, direction = ''asc''\<rparr>))) = [3, 1, 2]"
  using C5_sorted_view_keeps_source [of 0 "[[3, 1, 2 :: int]]"
      "\<lambda>xs ks ds. if ds = [''desc''] then rev (sort xs) else sort xs"
      "\<lparr>key = Some ''age'', direction = ''desc''\<rparr>" "[3, 1, 2]" "''age''"]
    C5_sorted_view_keeps_source [of 0 "[[3, 1, 2 :: int]]"
      "\<lambda>xs ks ds. if ds = [''desc''] then rev (sort xs) else sort xs"
      "\<lparr>key = None, direction = ''asc''\<rparr>" "[3, 1, 2]" "''age''"]
  by (simp add: sortedData_store_def alloc_def falsy_key_def)


section \<open>The row height estimate\<close>

lemma measureRowHeight_positive:
  "0 < measuredRowHeight s \<Longrightarrow> 0 < measuredRowHeight (measureRowHeight c sample s)"
  by (simp add: measureRowHeight_def Let_def split: option.split)

lemma measurementBy_positive:
  "0 < measuredRowHeight s \<Longrightarrow> 0 < measuredRowHeight (measurementBy m s)"
  by (cases m) (simp_all add: measureRowHeight_positive)

lemma fold_measurementBy_positive:
  "0 < measuredRowHeight s \<Longrightarrow> 0 < measuredRowHeight (fold measurementBy ms s)"
proof (induction ms arbitrary: s)
  case Nil
  then show ?case by simp
next
  case (Cons m ms)
  from Cons.prems have "0 < measuredRowHeight (measurementBy m s)"
    by (rule measurementBy_positive)
  then have "0 < measuredRowHeight (fold measurementBy ms (measurementBy m s))"
    by (rule Cons.IH)
  then show ?case by simp
qed

text \<open>
  Claim C9, as stated, fails twice. The sample is rounded to whole pixels before it is
  compared: a row 36.4 pixels high leaves the estimate 35 as it is, although 36.4 is more
  than one pixel from 35. And an observer's callback compares with the estimate of the
  first render: with the estimate at 40, a row of 41 pixels is stored, although 41 is
  within one pixel of 40.
\<close>

theorem C9_row_height_estimate_counterexample:
  "measuredRowHeight (measurementBy (InEffect (Some (182 / 5)))
       ((initial_body_state :: unit body_state)\<lparr>measuredRowHeight := 35\<rparr>)) = 35
   \<and> (0 :: real) < 182 / 5 \<and> (1 :: real) < \<bar>182 / 5 - 35\<bar>
   \<and> measuredRowHeight (measurementBy (InObserver (Some 41))
       ((initial_body_state :: unit body_state)\<lparr>measuredRowHeight := 40\<rparr>)) = 41
   \<and> \<not> (1 :: real) < \<bar>41 - 40\<bar>"
  by (simp add: measureRowHeight_def Math_round_def initial_body_state_def Let_def)

text \<open>
  Claim C9, amended. A measurement by the current render, of a row's height rounded to
  whole pixels, replaces the stored estimate exactly when the rounded height is positive
  and differs from the estimate by more than one pixel; otherwise, and when no row is
  rendered, the estimate stays. Under every sequence of measurements, by the current
  render or by an observer's callback, a positive estimate stays positive, and so does
  the estimate that starts at the default of 35.
\<close>

theorem C9_row_height_estimate:
  "measuredRowHeight (measurementBy (InEffect (Some raw)) s)
     = (if 0 < Math_round raw \<and> 1 < \<bar>Math_round raw - measuredRowHeight s\<bar>
        then Math_round raw else measuredRowHeight s)
   \<and> measuredRowHeight (measurementBy (InEffect None) s) = measuredRowHeight s
   \<and> measuredRowHeight (measurementBy (InObserver None) s) = measuredRowHeight s
   \<and> (0 < measuredRowHeight s \<longrightarrow> 0 < measuredRowHeight (fold measurementBy ms s))
   \<and> 0 < measuredRowHeight (fold measurementBy ms (initial_body_state :: 'row body_state))"
proof (intro conjI impI)
  show "measuredRowHeight (measurementBy (InEffect (Some raw)) s)
     = (if 0 < Math_round raw \<and> 1 < \<bar>Math_round raw - measuredRowHeight s\<bar>
        then Math_round raw else measuredRowHeight s)"
    by (simp add: measureRowHeight_def Let_def)
  show "measuredRowHeight (measurementBy (InEffect None) s) = measuredRowHeight s"
    by (simp add: measureRowHeight_def)
  show "measuredRowHeight (measurementBy (InObserver None) s) = measuredRowHeight s"
    by (simp add: measureRowHeight_def)
  show "0 < measuredRowHeight (fold measurementBy ms s)" if "0 < measuredRowHeight s"
    using that by (rule fold_measurementBy_positive)
  have "0 < measuredRowHeight (initial_body_state :: 'row body_state)"
    by (simp add: initial_body_state_def)
  then show "0 < measuredRowHeight (fold measurementBy ms (initial_body_state :: 'row body_state))"
    by (rule fold_measurementBy_positive)
qed

theorem C9_row_height_estimate_witness:
  "0 < measuredRowHeight (initial_body_state :: unit body_state)
   \<and> measuredRowHeight (measurementBy (InEffect (Some 40)) (initial_body_state :: unit body_state)) = 40
   \<and> measuredRowHeight (measurementBy (InEffect (Some 36)) (initial_body_state :: unit body_state)) = 35
   \<and> measuredRowHeight (measurementBy (InEffect (Some 0)) (initial_body_state :: unit body_state)) = 35
   \<and> 0 < measuredRowHeight
         (fold measurementBy
            [InEffect (Some 40), InObserver None, InObserver (Some 41), InEffect (Some 0),
             InObserver (Some (-3)), InEffect (Some 20)]
            (initial_body_state :: unit body_state))"
  using C9_row_height_estimate [of 40 "initial_body_state :: unit body_state"
      "[InEffect (Some 40), InObserver None, InObserver (Some 41), InEffect (Some 0),
        InObserver (Some (-3)), InEffect (Some 20)]"]
    C9_row_height_estimate [of 36 "initial_body_state :: unit body_state" "[]"]
    C9_row_height_estimate [of 0 "initial_body_state :: unit body_state" "[]"]
  by (simp add: initial_body_state_def Math_round_def measureRowHeight_def Let_def)

section \<open>Scroll synchronisation\<close>

text \<open>
  Claim C7. With both regions mounted, a scroll notification from the header or from the
  body, whose region shows offset \<open>L\<close>, leaves both regions and the stored position at
  \<open>L\<close>. The handler assigns the other region's offset only when it differs from \<open>L\<close>;
  when it is \<open>L\<close> already, neither element is touched. The notification that the one
  assignment causes is handled without another assignment, so that delivering the
  notifications ends after at most two runs of the handler, with both regions at \<open>L\<close>.
\<close>

theorem C7_horizontal_sync_single_shot:
  assumes b: "bodyRef s = Some b" and h: "headerRef s = Some h"
    and t: "t = BodyTarget \<or> t = HeaderTarget"
  shows "\<exists>L s' written s''.
           regionOffset t s = Some L
           \<and> handleScroll t s = (s', written)
           \<and> regionOffset BodyTarget s' = Some L
           \<and> regionOffset HeaderTarget s' = Some L
           \<and> pos_left (scrollPosition s') = L
           \<and> written = (if regionOffset (otherRegion t) s = Some L then [] else [otherRegion t])
           \<and> (if regionOffset (otherRegion t) s = Some L
               then bodyRef s' = bodyRef s \<and> headerRef s' = headerRef s else True)
           \<and> snd (handleScroll (otherRegion t) s') = []
           \<and> (\<forall>n. dispatchScroll (n + 2) [t] s = Some s'')
           \<and> regionOffset BodyTarget s'' = Some L
           \<and> regionOffset HeaderTarget s'' = Some L"
  using t
proof
  assume "t = BodyTarget"
  then show ?thesis
    using b h
    by (simp add: handleScroll_def regionOffset_def otherRegion_def Let_def)
next
  assume "t = HeaderTarget"
  then show ?thesis
    using b h
    by (simp add: handleScroll_def regionOffset_def otherRegion_def Let_def)
qed


theorem C7_horizontal_sync_single_shot_witness:
  "bodyRef (mounted_grid [()] [loader_column ''age''] 0 0
            \<lparr>bodyRef := Some \<lparr>scrollTop = 0, scrollLeft = 120, clientHeight = 300,
                               clientWidth = 800, scrollWidth = 1200\<rparr>\<rparr>)
     = Some \<lparr>scrollTop = 0, scrollLeft = 120, clientHeight = 300,
             clientWidth = 800, scrollWidth = 1200\<rparr>
   \<and> headerRef (mounted_grid [()] [loader_column ''age''] 0 0
            \<lparr>bodyRef := Some \<lparr>scrollTop = 0, scrollLeft = 120, clientHeight = 300,
                               clientWidth = 800, scrollWidth = 1200\<rparr>\<rparr>)
     = Some \<lparr>scrollTop = 0, scrollLeft = 0, clientHeight = 40,
             clientWidth = 800, scrollWidth = 1200\<rparr>
   \<and> snd (handleScroll BodyTarget (mounted_grid [()] [loader_column ''age''] 0 0
            \<lparr>bodyRef := Some \<lparr>scrollTop = 0, scrollLeft = 120, clientHeight = 300,
                               clientWidth = 800, scrollWidth = 1200\<rparr>\<rparr>)) = [HeaderTarget]
   \<and> regionOffset HeaderTarget (fst (handleScroll BodyTarget
          (mounted_grid [()] [loader_column ''age''] 0 0
            \<lparr>bodyRef := Some \<lparr>scrollTop = 0, scrollLeft = 120, clientHeight = 300,
                               clientWidth = 800, scrollWidth = 1200\<rparr>\<rparr>))) = Some 120
   \<and> map_option (regionOffset HeaderTarget) (dispatchScroll 2 [BodyTarget]
          (mounted_grid [()] [loader_column ''age''] 0 0
            \<lparr>bodyRef := Some \<lparr>scrollTop = 0, scrollLeft = 120, clientHeight = 300,
                               clientWidth = 800, scrollWidth = 1200\<rparr>\<rparr>)) = Some (Some 120)
   \<and> map_option (regionOffset BodyTarget) (dispatchScroll 2 [BodyTarget]
          (mounted_grid [()] [loader_column ''age''] 0 0
            \<lparr>bodyRef := Some \<lparr>scrollTop = 0, scrollLeft = 120, clientHeight = 300,
                               clientWidth = 800, scrollWidth = 1200\<rparr>\<rparr>)) = Some (Some 120)"
proof -
  let ?b = "\<lparr>scrollTop = 0, scrollLeft = 120, clientHeight = 300,
             clientWidth = 800, scrollWidth = 1200\<rparr>"
  let ?h = "\<lparr>scrollTop = 0, scrollLeft = 0, clientHeight = 40,
             clientWidth = 800, scrollWidth = 1200\<rparr>"
  let ?s = "mounted_grid [()] [loader_column ''age''] 0 0 \<lparr>bodyRef := Some ?b\<rparr>"
  have b: "bodyRef ?s = Some ?b" by (simp add: mounted_grid_def)
  have h: "headerRef ?s = Some ?h" by (simp add: mounted_grid_def initial_grid_state_def)
  have t: "BodyTarget = BodyTarget \<or> BodyTarget = HeaderTarget" by simp
  from C7_horizontal_sync_single_shot [OF b h t]
  obtain L s' written s'' where
    o: "regionOffset BodyTarget ?s = Some L"
    and r: "handleScroll BodyTarget ?s = (s', written)"
    and hl: "regionOffset HeaderTarget s' = Some L"
    and w: "written = (if regionOffset (otherRegion BodyTarget) ?s = Some L then []
                       else [otherRegion BodyTarget])"
    and d: "\<forall>n. dispatchScroll (n + 2) [BodyTarget] ?s = Some s''"
    and db: "regionOffset BodyTarget s'' = Some L"
    and dh: "regionOffset HeaderTarget s'' = Some L"
    by blast
  have L: "L = 120"
    using o by (simp add: regionOffset_def mounted_grid_def)
  have w': "written = [HeaderTarget]"
    using w L by (simp add: regionOffset_def otherRegion_def mounted_grid_def
        initial_grid_state_def)
  have d2: "dispatchScroll 2 [BodyTarget] ?s = Some s''"
    using d [rule_format, of 0] by (simp only: add_0)
  show ?thesis
    using b h r hl w' d2 db dh L by simp
qed

section \<open>Replacing the dataset\<close>

lemma mountDataGrid_rendered:
  assumes "d \<noteq> []" "hs \<noteq> []"
  shows "mountDataGrid fb fh d hs =
           (initial_grid_state d hs)
             \<lparr>bodyRef := Some (fb\<lparr>scrollTop := 0, scrollLeft := 0\<rparr>),
              headerRef := Some (fh\<lparr>scrollTop := 0, scrollLeft := 0\<rparr>)\<rparr>"
  using assms
  by (simp add: mountDataGrid_def commitRender_def dataChangeEffect_def initial_grid_state_def)

lemma handleFileChange_loaded:
  assumes "rows \<noteq> []"
  shows "handleFileChange fb fh (Some (rows, names)) a =
           \<lparr>app_data = rows, app_headers = map loader_column names, isLoading = False,
            grid = Some (mountDataGrid fb fh rows (map loader_column names))\<rparr>"
  using assms
  by (simp add: handleFileChange_def renderApp_def handleCSVData_def Let_def)

lemma handleFileChange_empty:
  "grid (handleFileChange fb fh (Some ([], names)) a) = None"
  by (simp add: handleFileChange_def renderApp_def handleCSVData_def Let_def)

lemma handleFileChange_grid:
  assumes "rows \<noteq> []" "names \<noteq> []"
  shows "grid (handleFileChange fb fh (Some (rows, names)) a) =
           Some ((initial_grid_state rows (map loader_column names))
             \<lparr>bodyRef := Some (fb\<lparr>scrollTop := 0, scrollLeft := 0\<rparr>),
              headerRef := Some (fh\<lparr>scrollTop := 0, scrollLeft := 0\<rparr>)\<rparr>)"
  using assms by (simp add: handleFileChange_loaded mountDataGrid_rendered)

lemma renderedRange_at_top:
  "pos_top (scrollPosition g) = 0 \<Longrightarrow>
   renderedRange orderBy ROW_HEIGHT g =
     \<lparr>vr_startIndex = 0,
      vr_endIndex = min (int (length (sortedData orderBy (data g) (sortConfig g))))
                      (visibleRowsCount ROW_HEIGHT g + 2)\<rparr>"
  by (simp add: renderedRange_def visibleRange_def Let_def)

text \<open>
  Claim C8, as stated, fails. The range DataGrid renders has an exclusive end: after
  5 rows replace 10000 rows at offset 8000 it is 0 to 5, not 0 to 4. When the new
  dataset is empty, App renders no grid, and a DataGrid that another caller keeps
  mounted renders its placeholder, unmounts the body and keeps the stored offset 8000.
  And in a DataGrid kept mounted, the render of the new data comes before the reset:
  its range is computed from the stored offset, 228 to 5 in the example.
\<close>

theorem C8_every_replacement_counterexample:
  "gridRange example_orderBy 35
      (handleFileChange plain_element plain_element (Some (replicate 5 1, [''age'']))
         \<lparr>app_data = replicate 10000 0, app_headers = [loader_column ''age''],
          isLoading = False,
          grid = Some (mounted_grid (replicate 10000 0) [loader_column ''age''] 8000 0)\<rparr>)
     = Some \<lparr>vr_startIndex = 0, vr_endIndex = 5\<rparr>
   \<and> grid (handleFileChange plain_element plain_element (Some ([], [''age'']))
         \<lparr>app_data = replicate 10000 (0 :: nat), app_headers = [loader_column ''age''],
          isLoading = False,
          grid = Some (mounted_grid (replicate 10000 0) [loader_column ''age''] 8000 0)\<rparr>)
     = None
   \<and> pos_top (scrollPosition (replaceData plain_element plain_element []
         (mounted_grid (replicate 10000 (0 :: nat)) [loader_column ''age''] 8000 0))) = 8000
   \<and> bodyRef (replaceData plain_element plain_element []
         (mounted_grid (replicate 10000 (0 :: nat)) [loader_column ''age''] 8000 0)) = None
   \<and> renderedRange example_orderBy 35 (commitRender plain_element plain_element (replicate 5 1)
         (mounted_grid (replicate 10000 0) [loader_column ''age''] 8000 0))
     = \<lparr>vr_startIndex = 228, vr_endIndex = 5\<rparr>"
  by (simp add: gridRange_def handleFileChange_grid handleFileChange_empty
        replaceData_def commitRender_def dataChangeEffect_def
        renderedRange_def visibleRange_def visibleRowsCount_def sortedData_def js_or_def
        mounted_grid_def initial_grid_state_def Let_def)

text \<open>
  Claim C8, amended. For every dataset that is not empty and has fields, a load through
  App, which unmounts the grid while it loads, mounts a new grid, whatever the state of
  the grid before: the reset effect runs on the mount, the stored vertical offset and the
  body's own are 0, and the range is computed from offset 0, from 0 to, exclusively, the
  smaller of the length of the dataset and the visible count plus 2. Whenever the reset
  effect runs with the body mounted, it sets both offsets to 0 and the range rendered
  from the state it leaves starts at 0. Replacing 10000 rows by 5 rows at offset 8000
  gives offset 0 and the range from 0 to 5, exclusively: all 5 rows.
\<close>

theorem C8_load_resets_scrollTop:
  assumes r: "rows \<noteq> []" and n: "names \<noteq> []" and h: "0 < ROW_HEIGHT"
    and b: "bodyRef s = Some body"
  shows "map_option pos_top (gridScrollPosition (handleFileChange fb fh (Some (rows, names)) a))
           = Some 0
     \<and> map_option scrollTop (gridBody (handleFileChange fb fh (Some (rows, names)) a)) = Some 0
     \<and> map_option data (grid (handleFileChange fb fh (Some (rows, names)) a)) = Some rows
     \<and> gridRange orderBy ROW_HEIGHT (handleFileChange fb fh (Some (rows, names)) a)
         = Some \<lparr>vr_startIndex = 0,
                 vr_endIndex = min (int (length rows)) (max 10 \<lceil>300 / ROW_HEIGHT\<rceil> + 2)\<rparr>
     \<and> pos_top (scrollPosition (dataChangeEffect s)) = 0
     \<and> map_option scrollTop (bodyRef (dataChangeEffect s)) = Some 0
     \<and> renderedRange orderBy ROW_HEIGHT (dataChangeEffect s)
         = \<lparr>vr_startIndex = 0,
            vr_endIndex = min (int (length (sortedData orderBy (data s) (sortConfig s))))
                            (visibleRowsCount ROW_HEIGHT s + 2)\<rparr>
     \<and> map_option pos_top (gridScrollPosition
           (handleFileChange fb fh (Some (replicate 5 x, names))
              \<lparr>app_data = replicate 10000 y, app_headers = hs, isLoading = False,
               grid = Some (mounted_grid (replicate 10000 y) hs 8000 l)\<rparr>)) = Some 0
     \<and> gridRange orderBy 35
           (handleFileChange fb fh (Some (replicate 5 x, names))
              \<lparr>app_data = replicate 10000 y, app_headers = hs, isLoading = False,
               grid = Some (mounted_grid (replicate 10000 y) hs 8000 l)\<rparr>)
         = Some \<lparr>vr_startIndex = 0, vr_endIndex = 5\<rparr>
     \<and> visibleData (replicate 5 x) \<lparr>vr_startIndex = 0, vr_endIndex = 5\<rparr> = replicate 5 x"
proof -
  define g where "g = (initial_grid_state rows (map loader_column names))
             \<lparr>bodyRef := Some (fb\<lparr>scrollTop := 0, scrollLeft := 0\<rparr>),
              headerRef := Some (fh\<lparr>scrollTop := 0, scrollLeft := 0\<rparr>)\<rparr>"
  have G: "grid (handleFileChange fb fh (Some (rows, names)) a) = Some g"
    unfolding g_def using r n by (rule handleFileChange_grid)
  have gt: "pos_top (scrollPosition g) = 0" by (simp add: g_def initial_grid_state_def)
  have gc: "visibleRowsCount ROW_HEIGHT g = max 10 \<lceil>300 / ROW_HEIGHT\<rceil>"
    by (simp add: g_def initial_grid_state_def visibleRowsCount_def js_or_def)
  have gv: "sortedData orderBy (data g) (sortConfig g) = rows"
    by (simp add: g_def initial_grid_state_def sortedData_def)
  have 1: "map_option pos_top (gridScrollPosition (handleFileChange fb fh (Some (rows, names)) a))
           = Some 0"
    by (simp add: gridScrollPosition_def G gt)
  have 2: "map_option scrollTop (gridBody (handleFileChange fb fh (Some (rows, names)) a)) = Some 0"
    by (simp add: gridBody_def G g_def)
  have 3: "map_option data (grid (handleFileChange fb fh (Some (rows, names)) a)) = Some rows"
    by (simp add: G g_def initial_grid_state_def)
  have 4: "gridRange orderBy ROW_HEIGHT (handleFileChange fb fh (Some (rows, names)) a)
         = Some \<lparr>vr_startIndex = 0,
                 vr_endIndex = min (int (length rows)) (max 10 \<lceil>300 / ROW_HEIGHT\<rceil> + 2)\<rparr>"
    by (simp add: gridRange_def G renderedRange_at_top [OF gt] gc gv)
  have E: "dataChangeEffect s =
             s\<lparr>bodyRef := Some (body\<lparr>scrollTop := 0\<rparr>),
               scrollPosition := \<lparr>pos_top = 0, pos_left = pos_left (scrollPosition s)\<rparr>\<rparr>"
    using b by (simp add: dataChangeEffect_def)
  have et: "pos_top (scrollPosition (dataChangeEffect s)) = 0" by (simp add: E)
  have 5: "map_option scrollTop (bodyRef (dataChangeEffect s)) = Some 0" by (simp add: E)
  have 6: "renderedRange orderBy ROW_HEIGHT (dataChangeEffect s)
         = \<lparr>vr_startIndex = 0,
            vr_endIndex = min (int (length (sortedData orderBy (data s) (sortConfig s))))
                            (visibleRowsCount ROW_HEIGHT s + 2)\<rparr>"
    by (simp add: renderedRange_at_top [OF et]) (simp add: E visibleRowsCount_def)
  let ?a = "\<lparr>app_data = replicate 10000 y, app_headers = hs, isLoading = False,
            grid = Some (mounted_grid (replicate 10000 y) hs 8000 l)\<rparr>"
  define g5 where "g5 = (initial_grid_state (replicate 5 x) (map loader_column names))
             \<lparr>bodyRef := Some (fb\<lparr>scrollTop := 0, scrollLeft := 0\<rparr>),
              headerRef := Some (fh\<lparr>scrollTop := 0, scrollLeft := 0\<rparr>)\<rparr>"
  have r5: "replicate 5 x \<noteq> []" by simp
  have G5: "grid (handleFileChange fb fh (Some (replicate 5 x, names)) ?a) = Some g5"
    unfolding g5_def using r5 n by (rule handleFileChange_grid)
  have 7: "map_option pos_top (gridScrollPosition
             (handleFileChange fb fh (Some (replicate 5 x, names)) ?a)) = Some 0"
    by (simp add: gridScrollPosition_def G5 g5_def initial_grid_state_def)
  have 8: "gridRange orderBy 35 (handleFileChange fb fh (Some (replicate 5 x, names)) ?a)
         = Some \<lparr>vr_startIndex = 0, vr_endIndex = 5\<rparr>"
    by (simp add: gridRange_def G5 g5_def renderedRange_def visibleRange_def
          visibleRowsCount_def sortedData_def initial_grid_state_def js_or_def Let_def)
  have 9: "visibleData (replicate 5 x) \<lparr>vr_startIndex = 0, vr_endIndex = 5\<rparr> = replicate 5 x"
    by (simp add: visibleData_def slice_def Let_def)
  show ?thesis
    using 1 2 3 4 et 5 6 7 8 9 by (intro conjI)
qed

theorem C8_load_resets_scrollTop_witness:
  "replicate 7 (1 :: nat) \<noteq> [] \<and> [''age'', ''name''] \<noteq> [] \<and> (0 :: real) < 35
   \<and> bodyRef (mounted_grid (replicate 200 (0 :: nat)) [loader_column ''age''] 3500 40)
       = Some \<lparr>scrollTop = 3500, scrollLeft = 40, clientHeight = 300,
               clientWidth = 800, scrollWidth = 1200\<rparr>
   \<and> map_option pos_top (gridScrollPosition
        (handleFileChange plain_element plain_element (Some (replicate 7 (1 :: nat), [''age'', ''name'']))
           \<lparr>app_data = replicate 200 0, app_headers = [loader_column ''age''],
            isLoading = False,
            grid = Some (mounted_grid (replicate 200 0) [loader_column ''age''] 3500 40)\<rparr>))
       = Some 0
   \<and> gridRange example_orderBy 35
        (handleFileChange plain_element plain_element (Some (replicate 7 (1 :: nat), [''age'', ''name'']))
           \<lparr>app_data = replicate 200 0, app_headers = [loader_column ''age''],
            isLoading = False,
            grid = Some (mounted_grid (replicate 200 0) [loader_column ''age''] 3500 40)\<rparr>)
       = Some \<lparr>vr_startIndex = 0, vr_endIndex = 7\<rparr>
   \<and> pos_top (scrollPosition (dataChangeEffect
        (mounted_grid (replicate 200 (0 :: nat)) [loader_column ''age''] 3500 40))) = 0"
proof -
  let ?g = "mounted_grid (replicate 200 (0 :: nat)) [loader_column ''age''] 3500 40"
  let ?a = "\<lparr>app_data = replicate 200 (0 :: nat), app_headers = [loader_column ''age''],
            isLoading = False, grid = Some ?g\<rparr>"
  let ?b = "\<lparr>scrollTop = 3500, scrollLeft = 40, clientHeight = 300,
             clientWidth = 800, scrollWidth = 1200\<rparr>"
  have r: "replicate 7 (1 :: nat) \<noteq> []" by simp
  have n: "[''age'', ''name''] \<noteq> []" by simp
  have h: "(0 :: real) < 35" by simp
  have b: "bodyRef ?g = Some ?b" by (simp add: mounted_grid_def)
  note t = C8_load_resets_scrollTop [OF r n h b, where fb = plain_element
      and fh = plain_element and a = ?a and orderBy = example_orderBy
      and x = "0 :: nat" and y = "0 :: nat" and hs = "[]" and l = 0]
  note t1 = t [THEN conjunct1]
  note t4 = t [THEN conjunct2, THEN conjunct2, THEN conjunct2, THEN conjunct1]
  note t5 = t [THEN conjunct2, THEN conjunct2, THEN conjunct2, THEN conjunct2, THEN conjunct1]
  have t4': "gridRange example_orderBy 35
        (handleFileChange plain_element plain_element (Some (replicate 7 1, [''age'', ''name'']))
           ?a) = Some \<lparr>vr_startIndex = 0, vr_endIndex = 7\<rparr>"
    using t4 by simp
  show ?thesis
    using r n h b t1 t4' t5 by blast
qed

text \<open>
  Claim C10, as stated, fails for a dataset swap: App mounts a new grid for the new
  dataset, and its stored and shown horizontal offsets are 0, whatever they were.
\<close>

theorem C10_reset_keeps_horizontal_offset_counterexample:
  "map_option pos_left (gridScrollPosition
      \<lparr>app_data = replicate 10000 (0 :: nat), app_headers = [loader_column ''age''],
       isLoading = False,
       grid = Some (mounted_grid (replicate 10000 0) [loader_column ''age''] 8000 40)\<rparr>)
     = Some 40
   \<and> map_option pos_left (gridScrollPosition
      (handleFileChange plain_element plain_element (Some (replicate 5 1, [''age'']))
         \<lparr>app_data = replicate 10000 (0 :: nat), app_headers = [loader_column ''age''],
          isLoading = False,
          grid = Some (mounted_grid (replicate 10000 0) [loader_column ''age''] 8000 40)\<rparr>))
     = Some 0
   \<and> map_option scrollLeft (gridBody
      (handleFileChange plain_element plain_element (Some (replicate 5 1, [''age'']))
         \<lparr>app_data = replicate 10000 (0 :: nat), app_headers = [loader_column ''age''],
          isLoading = False,
          grid = Some (mounted_grid (replicate 10000 0) [loader_column ''age''] 8000 40)\<rparr>))
     = Some 0"
  by (simp add: gridScrollPosition_def gridBody_def handleFileChange_grid
        initial_grid_state_def mounted_grid_def)

text \<open>
  Claim C10, amended. The reset effect changes only the vertical component: the
  stored horizontal offset after the effect is the one before it, and of the elements it
  writes only the body's vertical offset. A render of a mounted DataGrid with new data
  keeps the stored horizontal offset too. A dataset swap through App does not: the new
  grid's stored horizontal offset, and the offsets its body and header show, are 0.
\<close>

theorem C10_reset_keeps_horizontal_offset:
  assumes r: "rows \<noteq> []" and n: "names \<noteq> []"
  shows "pos_left (scrollPosition (dataChangeEffect s)) = pos_left (scrollPosition s)
   \<and> map_option scrollLeft (bodyRef (dataChangeEffect s)) = map_option scrollLeft (bodyRef s)
   \<and> headerRef (dataChangeEffect s) = headerRef s
   \<and> pos_left (scrollPosition (replaceData fb fh newData s)) = pos_left (scrollPosition s)
   \<and> map_option pos_left (gridScrollPosition (handleFileChange fb fh (Some (rows, names)) a))
       = Some 0
   \<and> map_option scrollLeft (gridBody (handleFileChange fb fh (Some (rows, names)) a)) = Some 0
   \<and> map_option scrollLeft (gridHeader (handleFileChange fb fh (Some (rows, names)) a)) = Some 0"
proof (intro conjI)
  show "pos_left (scrollPosition (dataChangeEffect s)) = pos_left (scrollPosition s)"
    by (simp add: dataChangeEffect_def split: option.split)
  show "map_option scrollLeft (bodyRef (dataChangeEffect s)) = map_option scrollLeft (bodyRef s)"
    by (simp add: dataChangeEffect_def split: option.split)
  show "headerRef (dataChangeEffect s) = headerRef s"
    by (simp add: dataChangeEffect_def split: option.split)
  show "pos_left (scrollPosition (replaceData fb fh newData s)) = pos_left (scrollPosition s)"
    by (simp add: replaceData_def commitRender_def dataChangeEffect_def Let_def
          split: option.split)
  note g = handleFileChange_grid [OF r n, of fb fh a]
  show "map_option pos_left (gridScrollPosition (handleFileChange fb fh (Some (rows, names)) a))
       = Some 0"
    by (simp add: gridScrollPosition_def g initial_grid_state_def)
  show "map_option scrollLeft (gridBody (handleFileChange fb fh (Some (rows, names)) a)) = Some 0"
    by (simp add: gridBody_def g)
  show "map_option scrollLeft (gridHeader (handleFileChange fb fh (Some (rows, names)) a)) = Some 0"
    by (simp add: gridHeader_def g)
qed

theorem C10_reset_keeps_horizontal_offset_witness:
  "replicate 5 (1 :: nat) \<noteq> [] \<and> [''age''] \<noteq> []
   \<and> pos_left (scrollPosition (dataChangeEffect
        (mounted_grid (replicate 10000 (0 :: nat)) [loader_column ''age''] 8000 40))) = 40
   \<and> pos_top (scrollPosition (dataChangeEffect
        (mounted_grid (replicate 10000 (0 :: nat)) [loader_column ''age''] 8000 40))) = 0
   \<and> pos_left (scrollPosition (replaceData plain_element plain_element (replicate 5 1)
        (mounted_grid (replicate 10000 (0 :: nat)) [loader_column ''age''] 8000 40))) = 40
   \<and> map_option pos_left (gridScrollPosition
        (handleFileChange plain_element plain_element (Some (replicate 5 1, [''age'']))
           \<lparr>app_data = replicate 10000 (0 :: nat), app_headers = [loader_column ''age''],
            isLoading = False,
            grid = Some (mounted_grid (replicate 10000 0) [loader_column ''age''] 8000 40)\<rparr>))
       = Some 0"
proof -
  let ?g = "mounted_grid (replicate 10000 (0 :: nat)) [loader_column ''age''] 8000 40"
  let ?a = "\<lparr>app_data = replicate 10000 (0 :: nat), app_headers = [loader_column ''age''],
            isLoading = False, grid = Some ?g\<rparr>"
  have r: "replicate 5 (1 :: nat) \<noteq> []" by simp
  have n: "[''age''] \<noteq> []" by simp
  note t = C10_reset_keeps_horizontal_offset [OF r n, of ?g plain_element plain_element
      "replicate 5 1" ?a]
  have l: "pos_left (scrollPosition ?g) = 40" by (simp add: mounted_grid_def)
  have tp: "pos_top (scrollPosition (dataChangeEffect ?g)) = 0"
    by (simp add: dataChangeEffect_def mounted_grid_def)
  show ?thesis
    using r n t l tp by simp
qed

section \<open>Resizing a column\<close>

lemma lodash_clamp_max_min:
  "lower \<le> upper \<Longrightarrow> lodash_clamp n lower upper = max lower (min upper n)"
  by (simp add: lodash_clamp_def Let_def max_def min_def)

lemma handleMouseMove_headers:
  "headers (handleMouseMove d x s) =
     map (\<lambda>hdr. if col_id hdr = drag_column d
                 then hdr\<lparr>col_width := lodash_clamp (startWidth d + (x - startX d)) 50 500\<rparr>
                 else hdr) (headers s)"
  by (simp add: handleMouseMove_def handleColumnResize_def Let_def split: option.split)

lemma resizeColumn_headers:
  "headers (resizeColumn hdr downX right moveX s) =
     (if resizable hdr
      then map (\<lambda>h. if col_id h = col_id hdr
                     then h\<lparr>col_width := lodash_clamp (col_width hdr + (moveX - downX)) 50 500\<rparr>
                     else h) (headers s)
      else headers s)"
  by (simp add: resizeColumn_def resizeMouseDown_def handleMouseMove_headers)

lemma resizeColumn_not_resizable: "\<not> resizable hdr \<Longrightarrow> resizeColumn hdr x0 r x s = s"
  by (simp add: resizeColumn_def resizeMouseDown_def)

lemma resizeColumn_keeps_bounds:
  "map minWidth (headers (resizeColumn hdr downX right moveX s)) = map minWidth (headers s)
   \<and> map maxWidth (headers (resizeColumn hdr downX right moveX s)) = map maxWidth (headers s)
   \<and> map resizable (headers (resizeColumn hdr downX right moveX s)) = map resizable (headers s)
   \<and> map col_id (headers (resizeColumn hdr downX right moveX s)) = map col_id (headers s)"
  by (simp add: resizeColumn_headers comp_def cong: map_cong)

lemma header_first_drag:
  assumes "resizingColumn st = None"
    and "handleResizeStart hs headerId downX st = Some (st', Some l)"
  shows "handleResizeMove l moveX = Some None"
    and "handleResizeEnd l upX st' = Some (st', None, False)"
  using assms
  by (auto simp: handleResizeStart_def handleResizeMove_def handleResizeEnd_def
      split: option.splits if_splits)

lemma handleResizeEnd_own_bounds:
  assumes "resizingColumn (captured l) = Some rc" "rc \<noteq> []"
    and "find (\<lambda>h. col_id h = rc) (captured_headers l) = Some hdr"
    and "minWidth hdr \<le> maxWidth hdr"
  shows "handleResizeEnd l x st =
           Some (st\<lparr>resizingColumn := None\<rparr>,
                 Some (rc, lodash_clamp (hs_startWidth (captured l) + (x - hs_startX (captured l)))
                             (minWidth hdr) (maxWidth hdr)),
                 True)"
  using assms by (simp add: handleResizeEnd_def Let_def lodash_clamp_max_min)

text \<open>
  Claim C6, as stated, fails for a column whose bounds are not 50 and 500: DataGrid
  cuts the width at 50 and 500. For a column of width 150 with bounds 100 and 300, a drag
  by 90 pixels to the left stores 60, where the clamp into the column's own bounds is
  100.
\<close>

theorem C6_resize_clamps_counterexample:
  "resizable narrow_column
   \<and> headers (mounted_grid [()] [narrow_column] 0 0) = [narrow_column]
   \<and> col_width narrow_column + (-90 - 0) = 60
   \<and> map col_width (headers (resizeColumn narrow_column 0 1000 (-90)
        (mounted_grid [()] [narrow_column] 0 0))) = [60]
   \<and> minWidth narrow_column = 100
   \<and> max (minWidth narrow_column) (min (maxWidth narrow_column) 60) = 100"
  by (simp add: resizeColumn_def resizeMouseDown_def handleMouseMove_def handleColumnResize_def
        lodash_clamp_def narrow_column_def mounted_grid_def initial_grid_state_def Let_def)

text \<open>
  Claim C6, amended. When every column of the grid has the bounds 50 and 500, as every
  column the CSV loader builds has and as every resize keeps them, a drag of the handle
  of a resizable column stores, in the columns of that id, exactly the clamp of the
  proposed width (the width at the press plus the pointer's movement) into the column's
  own bounds: the minimum for a proposal below it, the maximum for one above it, the
  proposal otherwise; every other column stays as it is. A column that is not resizable
  has no handle, and the columns stay as they are.
\<close>

theorem C6_resize_clamps_loader_columns:
  assumes b: "\<forall>h \<in> set (headers s). minWidth h = 50 \<and> maxWidth h = 500"
  shows "headers (resizeColumn hdr downX right moveX s) =
           (if resizable hdr
            then map (\<lambda>h. if col_id h = col_id hdr
                           then h\<lparr>col_width :=
                                    max (minWidth h)
                                      (min (maxWidth h) (col_width hdr + (moveX - downX)))\<rparr>
                           else h) (headers s)
            else headers s)
     \<and> (if resizable hdr then True else resizeColumn hdr downX right moveX s = s)
     \<and> max (50 :: real) (min 500 w) = (if w < 50 then 50 else if 500 < w then 500 else w)
     \<and> (\<forall>h \<in> set (headers (resizeColumn hdr downX right moveX s)).
           minWidth h = 50 \<and> maxWidth h = 500)
     \<and> minWidth (loader_column field) = 50 \<and> maxWidth (loader_column field) = 500
     \<and> resizable (loader_column field)
     \<and> (\<forall>h \<in> set (headers (mountDataGrid fb fh rows (map loader_column names))).
           minWidth h = 50 \<and> maxWidth h = 500 \<and> resizable h)"
proof (intro conjI)
  have eq: "\<And>h. h \<in> set (headers s) \<Longrightarrow>
              lodash_clamp (col_width hdr + (moveX - downX)) 50 500
              = max (minWidth h) (min (maxWidth h) (col_width hdr + (moveX - downX)))"
    using b by (simp add: lodash_clamp_max_min)
  show "headers (resizeColumn hdr downX right moveX s) =
           (if resizable hdr
            then map (\<lambda>h. if col_id h = col_id hdr
                           then h\<lparr>col_width :=
                                    max (minWidth h)
                                      (min (maxWidth h) (col_width hdr + (moveX - downX)))\<rparr>
                           else h) (headers s)
            else headers s)"
    using eq by (simp add: resizeColumn_headers cong: map_cong)
  show "if resizable hdr then True else resizeColumn hdr downX right moveX s = s"
    by (simp add: resizeColumn_not_resizable)
  show "max (50 :: real) (min 500 w) = (if w < 50 then 50 else if 500 < w then 500 else w)"
    by (simp add: max_def min_def)
  show "\<forall>h \<in> set (headers (resizeColumn hdr downX right moveX s)).
           minWidth h = 50 \<and> maxWidth h = 500"
    using b by (auto simp: resizeColumn_headers)
  show "minWidth (loader_column field) = 50" "maxWidth (loader_column field) = 500"
    "resizable (loader_column field)"
    by (simp_all add: loader_column_def)
  show "\<forall>h \<in> set (headers (mountDataGrid fb fh rows (map loader_column names))).
           minWidth h = 50 \<and> maxWidth h = 500 \<and> resizable h"
    by (auto simp: mountDataGrid_def commitRender_def dataChangeEffect_def
        initial_grid_state_def loader_column_def split: option.splits)
qed

theorem C6_resize_clamps_loader_columns_witness:
  "map minWidth (headers (mounted_grid [()] [loader_column ''age'', loader_column ''name''] 0 0))
     = [50, 50]
   \<and> map maxWidth (headers (mounted_grid [()] [loader_column ''age'', loader_column ''name''] 0 0))
     = [500, 500]
   \<and> map col_width (headers (resizeColumn (loader_column ''age'') 200 1000 60
        (mounted_grid [()] [loader_column ''age'', loader_column ''name''] 0 0))) = [50, 150]
   \<and> map col_width (headers (resizeColumn (loader_column ''name'') 200 1000 900
        (mounted_grid [()] [loader_column ''age'', loader_column ''name''] 0 0))) = [150, 500]
   \<and> map col_width (headers (resizeColumn (loader_column ''name'') 200 1000 260
        (mounted_grid [()] [loader_column ''age'', loader_column ''name''] 0 0))) = [150, 210]"
proof -
  let ?s = "mounted_grid [()] [loader_column ''age'', loader_column ''name''] 0 0"
  have b: "\<forall>h \<in> set (headers ?s). minWidth h = 50 \<and> maxWidth h = 500"
    by (simp add: mounted_grid_def initial_grid_state_def loader_column_def)
  note t = C6_resize_clamps_loader_columns [OF b, THEN conjunct1]
  have 1: "map col_width (headers (resizeColumn (loader_column ''age'') 200 1000 60 ?s)) = [50, 150]"
    by (simp add: t [of "loader_column ''age''" 200 1000 60])
       (simp add: mounted_grid_def initial_grid_state_def loader_column_def)
  have 2: "map col_width (headers (resizeColumn (loader_column ''name'') 200 1000 900 ?s)) = [150, 500]"
    by (simp add: t [of "loader_column ''name''" 200 1000 900])
       (simp add: mounted_grid_def initial_grid_state_def loader_column_def)
  have 3: "map col_width (headers (resizeColumn (loader_column ''name'') 200 1000 260 ?s)) = [150, 210]"
    by (simp add: t [of "loader_column ''name''" 200 1000 260])
       (simp add: mounted_grid_def initial_grid_state_def loader_column_def)
  have m: "map minWidth (headers ?s) = [50, 50]" "map maxWidth (headers ?s) = [500, 500]"
    by (simp_all add: mounted_grid_def initial_grid_state_def loader_column_def)
  show ?thesis
    using m 1 2 3 by blast
qed

end
